theory Spec2Isabelle
  imports Main
begin

section \<open>Package workloadmanager: insight shipping\<close>

text \<open>
  The Go type \<^verbatim>\<open>WorkloadType\<close> is a named string type: any string is a value of it,
  and the override file of the package feeds arbitrary strings into it.  The declared
  constants are the six below.
\<close>

type_synonym WorkloadType = string

definition UNKNOWN :: WorkloadType where "UNKNOWN = ''UNKNOWN''"
definition ORACLE :: WorkloadType where "ORACLE = ''ORACLE''"
definition MYSQL :: WorkloadType where "MYSQL = ''MYSQL''"
definition REDIS :: WorkloadType where "REDIS = ''REDIS''"
definition POSTGRES :: WorkloadType where "POSTGRES = ''POSTGRES''"
definition MONGODB :: WorkloadType where "MONGODB = ''MONGODB''"

lemmas WorkloadType_defs = UNKNOWN_def ORACLE_def MYSQL_def REDIS_def POSTGRES_def MONGODB_def

text \<open>\<^verbatim>\<open>WorkloadMetrics\<close>: a workload type and a \<^verbatim>\<open>map[string]string\<close>.\<close>

record WorkloadMetrics =
  WorkloadType :: WorkloadType
  Metrics :: "string \<rightharpoonup> string"

text \<open>
  The fields of \<^verbatim>\<open>cpb.CloudProperties\<close> that the package reads.  The Go value is a
  pointer whose getters return the empty string on nil, so nil is the record of empty
  strings.
\<close>

record CloudProperties =
  ProjectId :: string
  InstanceId :: string
  InstanceName :: string
  Region :: string

text \<open>
  The values of \<^verbatim>\<open>dwpb.TorsoValidation_WorkloadType\<close> that the repository names.  The
  enum lives in the platform's data-warehouse protos; the source refers to these four
  values and to no other.
\<close>

datatype TorsoValidation_WorkloadType =
  TorsoValidation_WORKLOAD_TYPE_UNSPECIFIED
| TorsoValidation_MYSQL
| TorsoValidation_ORACLE
| TorsoValidation_REDIS

record TorsoValidation =
  tv_WorkloadType :: TorsoValidation_WorkloadType
  tv_ValidationDetails :: "string \<rightharpoonup> string"
  tv_ProjectId :: string
  tv_InstanceName :: string
  tv_AgentVersion :: string

record Insight =
  ins_InstanceId :: string
  ins_TorsoValidation :: TorsoValidation

record WriteInsightRequest =
  req_Insight :: Insight

text \<open>
  The map literal of \<^verbatim>\<open>createWriteInsightRequest\<close>, entry by entry, as a finite map on
  workload types.
\<close>

definition workloadTypeMap :: "WorkloadType \<rightharpoonup> TorsoValidation_WorkloadType" where
  "workloadTypeMap =
     map_of [(ORACLE, TorsoValidation_ORACLE),
             (MYSQL, TorsoValidation_MYSQL),
             (REDIS, TorsoValidation_REDIS),
             (UNKNOWN, TorsoValidation_WORKLOAD_TYPE_UNSPECIFIED)]"

text \<open>
  \<^verbatim>\<open>createWriteInsightRequest\<close>.  The package constant
  \<^verbatim>\<open>configuration.AgentVersion\<close> is declared outside the files at hand and is taken as
  the parameter \<open>agentVersion\<close>.  The lookup \<^verbatim>\<open>workloadType, ok := workloadTypeMap[...]\<close>
  followed by \<^verbatim>\<open>if !ok\<close> is the case split on the map's answer.
\<close>

definition createWriteInsightRequest ::
    "string \<Rightarrow> WorkloadMetrics \<Rightarrow> CloudProperties \<Rightarrow> WriteInsightRequest" where
  "createWriteInsightRequest agentVersion wm cp =
     (let workloadType =
            (case workloadTypeMap (WorkloadType wm) of
               Some t \<Rightarrow> t
             | None \<Rightarrow> TorsoValidation_WORKLOAD_TYPE_UNSPECIFIED)
      in \<lparr>req_Insight =
            \<lparr>ins_InstanceId = InstanceId cp,
             ins_TorsoValidation =
               \<lparr>tv_WorkloadType = workloadType,
                tv_ValidationDetails = Metrics wm,
                tv_ProjectId = ProjectId cp,
                tv_InstanceName = InstanceName cp,
                tv_AgentVersion = agentVersion\<rparr>\<rparr>\<rparr>)"

text \<open>The workload type a request carries.\<close>

definition request_workload_type :: "WriteInsightRequest \<Rightarrow> TorsoValidation_WorkloadType" where
  "request_workload_type r = tv_WorkloadType (ins_TorsoValidation (req_Insight r))"

text \<open>
  The workload kinds the package declares besides \<^verbatim>\<open>UNKNOWN\<close>, in the order of its
  constant block.
\<close>

definition declared_kinds :: "WorkloadType list" where
  "declared_kinds = [ORACLE, MYSQL, REDIS, POSTGRES, MONGODB]"

subsection \<open>Shipping one batch\<close>

text \<open>A Go \<^verbatim>\<open>error\<close> value, by its message (\<^verbatim>\<open>errors.New\<close>).\<close>

datatype error = Error string

record WriteInsightResponse =
  HTTPStatusCode :: int

text \<open>
  The interface \<^verbatim>\<open>WLMWriter\<close>.  Its one method returns the Go pair
  \<^verbatim>\<open>(*wlm.WriteInsightResponse, error)\<close>, either component of which may be nil, and
  it acts on the world (a remote call, or the counters of a test double): the method
  takes the client's state \<open>'c\<close> and returns the new one.
\<close>

type_synonym 'c WLMWriter =
  "'c \<Rightarrow> string \<Rightarrow> string \<Rightarrow> WriteInsightRequest
     \<Rightarrow> (WriteInsightResponse option \<times> error option) \<times> 'c"

record 'c SendDataInsightParams =
  WLMetrics :: WorkloadMetrics
  CloudProps :: CloudProperties
  WLMService :: "'c WLMWriter"

text \<open>
  The error codes of package usagemetrics that the modelled code names.  A call of
  \<^verbatim>\<open>usagemetrics.Error\<close> is recorded by its code.
\<close>

datatype ErrorCode =
  DataWarehouseWriteInsightFailure
| OracleDiscoverDatabaseFailure
| OracleMetricCollectionFailure
| OracleServiceError
| CommonDiscoveryFailure

text \<open>
  \<^verbatim>\<open>SendDataInsight\<close>: build the request, call the client once, and on an error
  report the usage metric and return \<^verbatim>\<open>(nil, err)\<close>; otherwise return the client's
  response as it is, nil or not.  The result is the Go pair, the client's new state and
  the usage events reported.
\<close>

definition SendDataInsight ::
    "string \<Rightarrow> 'c SendDataInsightParams \<Rightarrow> 'c
       \<Rightarrow> (WriteInsightResponse option \<times> error option) \<times> 'c \<times> ErrorCode list" where
  "SendDataInsight agentVersion params c =
     (let req = createWriteInsightRequest agentVersion (WLMetrics params) (CloudProps params);
          ((res, err), c') =
             WLMService params c (ProjectId (CloudProps params)) (Region (CloudProps params)) req
      in case err of
           Some e \<Rightarrow> ((None, Some e), c', [DataWarehouseWriteInsightFailure])
         | None \<Rightarrow> ((res, None), c', []))"

text \<open>
  A client instrumented to record its calls: the state is the client's own state and the
  list of calls made so far, each with its project, location and request.
\<close>

definition recording ::
    "'c WLMWriter \<Rightarrow> ('c \<times> (string \<times> string \<times> WriteInsightRequest) list) WLMWriter" where
  "recording w = (\<lambda>(c, calls) project location req.
     (let (r, c') = w c project location req in (r, (c', calls @ [(project, location, req)]))))"

text \<open>
  A scripted client in the manner of the test double the repository's tests configure
  (\<^verbatim>\<open>WriteInsightResponses\<close>, \<^verbatim>\<open>WriteInsightErrs\<close>): the state is the script still to
  play; each call plays its head.  A call past the end of the script answers with an
  error.
\<close>

definition scripted :: "((WriteInsightResponse option \<times> error option) list) WLMWriter" where
  "scripted = (\<lambda>script project location req.
     (case script of
        [] \<Rightarrow> ((None, Some (Error ''script exhausted'')), [])
      | r # rest \<Rightarrow> (r, rest)))"

section \<open>Database access shared by the metric collectors\<close>

text \<open>
  \<^verbatim>\<open>rowsInterface\<close> (\<^verbatim>\<open>Next\<close>, \<^verbatim>\<open>Scan\<close>, \<^verbatim>\<open>Close\<close>) is the list of rows still to
  come; a row is what \<^verbatim>\<open>Scan\<close> into one string destination gives: an error or the
  value.  \<^verbatim>\<open>dbInterface.QueryContext\<close> returns the Go pair
  \<^verbatim>\<open>(rowsInterface, error)\<close>; the tests of the repository return nil rows with a nil
  error, so both components are optional.
\<close>

type_synonym row = "error + string"
type_synonym rowsInterface = "row list"
type_synonym dbInterface = "string \<Rightarrow> rowsInterface option \<times> error option"

section \<open>Package postgresmetrics\<close>

text \<open>
  Go's \<^verbatim>\<open>int\<close> on the 64-bit platforms the constants of the tests need
  (\<^verbatim>\<open>4 * 1024 * 1024 * 1024\<close> is an \<^verbatim>\<open>int\<close> there): the integers from \<open>minInt\<close> to
  \<open>maxInt\<close>, with arithmetic that wraps around.
\<close>

definition maxInt :: int where
  "maxInt = 2 ^ 63 - 1"

definition minInt :: int where
  "minInt = - (2 ^ 63)"

definition wrapInt :: "int \<Rightarrow> int" where
  "wrapInt x = (x + 2 ^ 63) mod 2 ^ 64 - 2 ^ 63"

text \<open>Decimal digits: the value of a digit string and the digits of a natural number.\<close>

definition is_digit :: "char \<Rightarrow> bool" where
  "is_digit c = ((of_char CHR ''0'' :: nat) \<le> of_char c \<and> (of_char c :: nat) \<le> of_char CHR ''9'')"

definition digit_val :: "char \<Rightarrow> nat" where
  "digit_val c = of_char c - of_char CHR ''0''"

definition digit_char :: "nat \<Rightarrow> char" where
  "digit_char d = char_of (of_char CHR ''0'' + d)"

definition decimalValue :: "string \<Rightarrow> nat" where
  "decimalValue ds = foldl (\<lambda>a c. 10 * a + digit_val c) 0 ds"

function decimal :: "nat \<Rightarrow> string" where
  "decimal n = (if n < 10 then [digit_char n] else decimal (n div 10) @ [digit_char (n mod 10)])"
  by pat_completeness auto
termination
  by (relation "measure id") auto

declare decimal.simps [simp del]

text \<open>
  \<^verbatim>\<open>strconv.Atoi\<close>: an optional sign and decimal digits; a string of another shape
  is a syntax error and a value outside the range of \<^verbatim>\<open>int\<close> is a range error.
  \<^verbatim>\<open>strconv.Itoa\<close>: the digits, after a minus sign for a negative number.
\<close>

definition Atoi :: "string \<Rightarrow> error + int" where
  "Atoi s =
     (let (neg, ds) =
            (case s of
               [] \<Rightarrow> (False, [])
             | c # rest \<Rightarrow>
                 if c = CHR ''-'' then (True, rest)
                 else if c = CHR ''+'' then (False, rest)
                 else (False, s))
      in if ds = [] \<or> \<not> list_all is_digit ds then Inl (Error ''invalid syntax'')
         else (let n = (if neg then - int (decimalValue ds) else int (decimalValue ds))
               in if n < minInt \<or> maxInt < n then Inl (Error ''value out of range'')
                  else Inr n))"

definition Itoa :: "int \<Rightarrow> string" where
  "Itoa n = (if n < 0 then CHR ''-'' # decimal (nat (- n)) else decimal (nat n))"

text \<open>
  Modelled from the spec: the constant is declared in the missing postgresmetrics.go;
  the spec's scenario names the metric \<^verbatim>\<open>work_mem\<close>.
\<close>

definition workMemKey :: string where
  "workMemKey = ''work_mem''"

text \<open>
  Modelled from the spec: the unit table of the missing postgresmetrics.go, "suffixed
  with kB, MB, or GB ... the appropriate power of 1024".
\<close>

definition unitMultiplier :: "string \<Rightarrow> int option" where
  "unitMultiplier u =
     (if u = ''kB'' then Some 1024
      else if u = ''MB'' then Some (1024 * 1024)
      else if u = ''GB'' then Some (1024 * 1024 * 1024)
      else None)"

text \<open>
  Modelled from the spec: the conversion inside the missing postgresmetrics.go, "the
  engine parses the number and multiplies by the appropriate power of 1024".  The
  number is the leading run of decimal digits, read with \<^verbatim>\<open>strconv.Atoi\<close>, the unit
  is the rest, and the product is a product of Go \<^verbatim>\<open>int\<close>s.  The spec is silent on
  strings of another shape; they are errors here.
\<close>

definition parseWorkMem :: "string \<Rightarrow> error + int" where
  "parseWorkMem s =
     (let ds = takeWhile is_digit s; u = dropWhile is_digit s
      in case Atoi ds of
           Inl e \<Rightarrow> Inl e
         | Inr n \<Rightarrow>
             (case unitMultiplier u of
                None \<Rightarrow> Inl (Error ''unknown unit'')
              | Some m \<Rightarrow> Inr (wrapInt (n * m))))"

text \<open>
  Modelled from the spec: the work_mem reading of the missing postgresmetrics.go: run
  \<^verbatim>\<open>SHOW work_mem\<close> (the query the test double answers), scan the first row into a
  string and convert it.  A query error, a missing row and a scan error are errors.
\<close>

definition getWorkMem :: "dbInterface \<Rightarrow> error + int" where
  "getWorkMem db =
     (case db ''SHOW work_mem'' of
        (_, Some e) \<Rightarrow> Inl e
      | (None, None) \<Rightarrow> Inl (Error ''no rows'')
      | (Some [], None) \<Rightarrow> Inl (Error ''no rows'')
      | (Some (Inl e # _), None) \<Rightarrow> Inl e
      | (Some (Inr s # _), None) \<Rightarrow> parseWorkMem s)"

record 'c PostgresMetrics =
  pg_db :: dbInterface
  pg_WLMClient :: "'c WLMWriter"
  pg_CloudProps :: CloudProperties

text \<open>
  Modelled from the spec: \<^verbatim>\<open>PostgresMetrics.CollectMetricsOnce\<close> of the missing
  postgresmetrics.go, as the spec and \<^verbatim>\<open>TestCollectMetricsOnce\<close> describe it: read
  work_mem, build the \<^verbatim>\<open>POSTGRES\<close> batch with the byte count stringified, ship it
  with \<^verbatim>\<open>SendDataInsight\<close>; an error of either step is the tick's error, and a nil
  response without an error is a success.
\<close>

definition CollectMetricsOnce ::
    "string \<Rightarrow> 'c PostgresMetrics \<Rightarrow> 'c
       \<Rightarrow> (error + WorkloadMetrics) \<times> 'c \<times> ErrorCode list" where
  "CollectMetricsOnce agentVersion m c =
     (case getWorkMem (pg_db m) of
        Inl e \<Rightarrow> (Inl e, c, [])
      | Inr workMem \<Rightarrow>
          (let metrics = \<lparr>WorkloadType = POSTGRES,
                          Metrics = [workMemKey \<mapsto> Itoa workMem]\<rparr>;
               ((res, err), c', u) =
                  SendDataInsight agentVersion
                    \<lparr>WLMetrics = metrics, CloudProps = pg_CloudProps m,
                     WLMService = pg_WLMClient m\<rparr> c
           in case err of
                Some e \<Rightarrow> (Inl e, c', u)
              | None \<Rightarrow> (Inr metrics, c', u)))"

definition work_mem_batch :: "string \<Rightarrow> WorkloadMetrics" where
  "work_mem_batch v = \<lparr>WorkloadType = POSTGRES, Metrics = [workMemKey \<mapsto> v]\<rparr>"

section \<open>Package mysqlmetrics\<close>

text \<open>
  Modelled from the spec: the role constants are declared in the missing
  mysqlmetrics.go; the spec calls the two roles source and replica.
\<close>

definition sourceRole :: string where
  "sourceRole = ''source''"

text \<open>
  Modelled from the spec: see \<open>sourceRole\<close>.
\<close>

definition replicaRole :: string where
  "replicaRole = ''replica''"

text \<open>
  What a query answered: it failed when it came back with an error or without a row
  set; it returned a row when it did not fail and \<^verbatim>\<open>Next\<close> is true on its row set.
\<close>

definition queryFailed :: "rowsInterface option \<times> error option \<Rightarrow> bool" where
  "queryFailed r = (snd r \<noteq> None \<or> fst r = None)"

definition returnsRow :: "rowsInterface option \<times> error option \<Rightarrow> bool" where
  "returnsRow r = (case r of (Some (_ # _), None) \<Rightarrow> True | _ \<Rightarrow> False)"

text \<open>
  Modelled from the spec: \<^verbatim>\<open>MySQLMetrics.currentRole\<close> of the missing
  mysqlmetrics.go: "attempt SHOW REPLICA STATUS, fall back to SHOW SLAVE STATUS; the
  presence of any row => replica, otherwise source".  The fallback is taken when the
  first query fails; \<^verbatim>\<open>TestGetCurrentRole\<close> takes it too on nil rows with a nil
  error.
\<close>

definition currentRole :: "dbInterface \<Rightarrow> string" where
  "currentRole db =
     (let r = db ''SHOW REPLICA STATUS''
      in if queryFailed r
         then (let r' = db ''SHOW SLAVE STATUS''
               in if queryFailed r' then sourceRole
                  else if returnsRow r' then replicaRole else sourceRole)
         else if returnsRow r then replicaRole else sourceRole)"

text \<open>
  \<^verbatim>\<open>netInterface\<close>, the three lookups the tests mock.  \<^verbatim>\<open>ParseIP\<close> returns the parsed
  address or nil.
\<close>

record netInterface =
  LookupHost :: "string \<Rightarrow> string list \<times> error option"
  ParseIP :: "string \<Rightarrow> string option"
  LookupAddr :: "string \<Rightarrow> string list \<times> error option"

text \<open>\<^verbatim>\<open>strings.Split(s, sep)\<close> for a one-character separator.\<close>

fun splitOn :: "char \<Rightarrow> string \<Rightarrow> string list" where
  "splitOn sep [] = [[]]"
| "splitOn sep (c # cs) =
     (if c = sep then [] # splitOn sep cs
      else (case splitOn sep cs of
              [] \<Rightarrow> [[c]]
            | w # ws \<Rightarrow> (c # w) # ws))"

text \<open>
  Modelled from the spec: "the second dotted component of the resulting FQDN"; a
  name without a dot has none.
\<close>

definition secondComponent :: "string \<Rightarrow> string option" where
  "secondComponent fqdn =
     (case splitOn CHR ''.'' fqdn of
        _ # z # _ \<Rightarrow> Some z
      | _ \<Rightarrow> None)"

text \<open>
  Modelled from the spec: the per-address resolution of the missing mysqlmetrics.go:
  "(a) parse as an IP: if successful, resolve hostname via reverse DNS; (b) otherwise
  treat as hostname and resolve forward".  In (a) the name is the first answer of the
  reverse lookup of the address; in (b) it is the address itself once the forward
  lookup succeeds, as \<^verbatim>\<open>TestReplicationZones\<close> has it.  A failed lookup gives no
  name.
\<close>

definition resolveFQDN :: "netInterface \<Rightarrow> string \<Rightarrow> string option" where
  "resolveFQDN net addr =
     (case ParseIP net addr of
        Some _ \<Rightarrow>
          (case LookupAddr net addr of
             (_, Some e) \<Rightarrow> None
           | ([], None) \<Rightarrow> None
           | (name # _, None) \<Rightarrow> Some name)
      | None \<Rightarrow>
          (case LookupHost net addr of
             (_, Some e) \<Rightarrow> None
           | (_, None) \<Rightarrow> Some addr))"

text \<open>
  Modelled from the spec: the loop over the replica addresses: a row that does not
  scan, an address that does not resolve and a name without a second component are
  skipped; a zone already collected is not added again.
\<close>

fun zonesLoop :: "netInterface \<Rightarrow> rowsInterface \<Rightarrow> string list \<Rightarrow> string list" where
  "zonesLoop net [] zones = zones"
| "zonesLoop net (r # rs) zones =
     (case r of
        Inl e \<Rightarrow> zonesLoop net rs zones
      | Inr addr \<Rightarrow>
          (case resolveFQDN net addr of
             None \<Rightarrow> zonesLoop net rs zones
           | Some fqdn \<Rightarrow>
               (case secondComponent fqdn of
                  None \<Rightarrow> zonesLoop net rs zones
                | Some z \<Rightarrow>
                    zonesLoop net rs (if z \<in> set zones then zones else zones @ [z]))))"

text \<open>
  Modelled from the spec: \<^verbatim>\<open>MySQLMetrics.replicationZones\<close> of the missing
  mysqlmetrics.go: "if role is source, read the list of currently connected replica
  addresses; for each entry ... extract the second dotted component ... deduplicate".
  The text of the query, the constant \<^verbatim>\<open>replicationZonesQuery\<close>, is the first
  parameter.  Another role, a failed query and nil rows give no zones.
\<close>

definition replicationZones ::
    "string \<Rightarrow> dbInterface \<Rightarrow> string \<Rightarrow> netInterface \<Rightarrow> string list" where
  "replicationZones replicationZonesQuery db role net =
     (if role \<noteq> sourceRole then []
      else case db replicationZonesQuery of
             (_, Some e) \<Rightarrow> []
           | (None, None) \<Rightarrow> []
           | (Some rows, None) \<Rightarrow> zonesLoop net rows [])"

section \<open>Package servicecommunication\<close>

text \<open>
  Modelled from the spec: the type is declared in the missing servicecommunication
  package; oracle.go names the two origins and has a default branch for every other
  value.
\<close>

datatype MessageOrigin =
  Discovery
| DWActivation
| OtherOrigin nat

text \<open>
  \<^verbatim>\<open>ProcessWrapper\<close>: the lookups of a process handle.  Each but the pid can fail (the
  process may have exited).
\<close>

record ProcessWrapper =
  Pid :: int
  Name :: "error + string"
  Username :: "error + string"
  CmdlineSlice :: "error + string list"
  Environ :: "error + string list"

text \<open>A nil slice of processes and an empty one are both the empty list.\<close>

record DiscoveryResult =
  Processes :: "ProcessWrapper list"

record Message =
  Origin :: MessageOrigin
  msg_DiscoveryResult :: DiscoveryResult

definition HasPrefix :: "string \<Rightarrow> string \<Rightarrow> bool" where
  "HasPrefix s p = (take (length p) s = p)"

text \<open>
  Modelled from the spec: the helper lives in the missing servicecommunication
  package; "scans names against the prefix set".
\<close>

definition HasAnyPrefix :: "string \<Rightarrow> string list \<Rightarrow> bool" where
  "HasAnyPrefix s prefixes = list_ex (HasPrefix s) prefixes"

section \<open>Configuration\<close>

text \<open>
  The parts of \<^verbatim>\<open>cpb.Configuration\<close> that the modelled code reads.  Message fields and
  optional scalars are pointers in Go: nil is \<open>None\<close>.  A getter on nil returns the zero
  value; a direct field access on nil panics.
\<close>

record OracleDiscovery =
  od_Enabled :: "bool option"

record OracleMetrics =
  om_Enabled :: "bool option"

record OracleConfiguration =
  oc_Enabled :: "bool option"
  oc_OracleDiscovery :: "OracleDiscovery option"
  oc_OracleMetrics :: "OracleMetrics option"

record CommonDiscovery =
  CollectionFrequency :: "int option"

record Configuration =
  cfg_OracleConfiguration :: "OracleConfiguration option"
  cfg_CommonDiscovery :: "CommonDiscovery option"

definition GetEnabled :: "bool option \<Rightarrow> bool" where
  "GetEnabled b = (case b of Some v \<Rightarrow> v | None \<Rightarrow> False)"

definition discoveryEnabled :: "OracleConfiguration \<Rightarrow> bool" where
  \<comment> \<open>\<^verbatim>\<open>GetOracleDiscovery().GetEnabled()\<close>\<close>
  "discoveryEnabled oc =
     (case oc_OracleDiscovery oc of None \<Rightarrow> False | Some d \<Rightarrow> GetEnabled (od_Enabled d))"

definition metricsEnabled :: "OracleConfiguration \<Rightarrow> bool" where
  \<comment> \<open>\<^verbatim>\<open>GetOracleMetrics().GetEnabled()\<close>\<close>
  "metricsEnabled oc =
     (case oc_OracleMetrics oc of None \<Rightarrow> False | Some m \<Rightarrow> GetEnabled (om_Enabled m))"

section \<open>Package oracle: the Oracle workload service\<close>

datatype log_entry = LogDebug string | LogInfo string | LogWarn string | LogError string

datatype routine = runDiscovery | runMetricCollection

text \<open>\<^verbatim>\<open>recovery.RecoverableRoutine\<close>, with the minimum duration in seconds.\<close>

record RecoverableRoutine =
  Routine :: routine
  rr_ErrorCode :: ErrorCode
  ExpectedMinDuration :: nat

text \<open>
  The fields of \<^verbatim>\<open>Service\<close> that Start and the message handler read or write.  The
  channel is the source of the handler's input below; the mutex guards \<open>processes\<close>.
\<close>

record Service =
  Config :: Configuration
  metricCollectionRoutine :: "RecoverableRoutine option"
  discoveryRoutine :: "RecoverableRoutine option"
  isProcessPresent :: bool
  processes :: "ProcessWrapper list"

definition oraProcessPrefixes :: "string list" where
  "oraProcessPrefixes = [''ora_pmon_'', ''db_pmon_'']"

text \<open>
  The loop of the handler over the processes of a discovery message: the flag is set at
  the first process whose name lookup succeeds with a matching name, and the loop breaks
  there.
\<close>

fun scanProcesses :: "ProcessWrapper list \<Rightarrow> bool \<Rightarrow> bool" where
  "scanProcesses [] present = present"
| "scanProcesses (p # ps) present =
     (case Name p of
        Inr name \<Rightarrow>
          (if HasAnyPrefix name oraProcessPrefixes then True else scanProcesses ps present)
      | Inl err \<Rightarrow> scanProcesses ps present)"

text \<open>
  What one call of \<^verbatim>\<open>checkServiceCommunication\<close> meets: whether \<^verbatim>\<open>ctx.Err()\<close> is
  non-nil on entry, and which case of the \<^verbatim>\<open>select\<close> fires.
\<close>

datatype select_outcome = CtxDone | Receive Message

type_synonym comm_step = "bool \<times> select_outcome"

fun checkServiceCommunication :: "comm_step \<Rightarrow> Service \<Rightarrow> Service" where
  "checkServiceCommunication (ctxErr, sel) s =
     (if ctxErr then s
      else case sel of
             CtxDone \<Rightarrow> s
           | Receive msg \<Rightarrow>
               (case Origin msg of
                  Discovery \<Rightarrow>
                    (let s' = s\<lparr>processes := Processes (msg_DiscoveryResult msg)\<rparr>
                     in s'\<lparr>isProcessPresent :=
                             scanProcesses (Processes (msg_DiscoveryResult msg))
                               (isProcessPresent s')\<rparr>)
                | DWActivation \<Rightarrow> s
                | OtherOrigin n \<Rightarrow> s))"

text \<open>
  The goroutine of Start, \<^verbatim>\<open>for { s.checkServiceCommunication(ctx) }\<close>, over the steps
  it takes.
\<close>

definition runHandler :: "comm_step list \<Rightarrow> Service \<Rightarrow> Service" where
  "runHandler steps s = fold checkServiceCommunication steps s"

text \<open>
  The loop \<^verbatim>\<open>for !s.isProcessPresent { time.Sleep(5 * time.Second) }\<close>.  The handler
  goroutine runs beside it: the schedule lists, for each evaluation of the loop
  condition in turn, the steps the handler took since the evaluation before.  The result
  is the service, the number of sleeps, whether the flag was seen set, and the schedule
  left over; a schedule that ends before the flag is seen leaves the loop running.
\<close>

fun waitForWorkload ::
    "Service \<Rightarrow> comm_step list list \<Rightarrow> nat \<Rightarrow> Service \<times> nat \<times> bool \<times> comm_step list list" where
  "waitForWorkload s [] sleeps = (s, sleeps, False, [])"
| "waitForWorkload s (steps # rest) sleeps =
     (let s' = runHandler steps s
      in if isProcessPresent s' then (s', sleeps, True, rest)
         else waitForWorkload s' rest (Suc sleeps))"

text \<open>
  How far Start has come at the end of the observed schedule: it returned, it panicked,
  it is still in the waiting loop, or it started its routines and blocks on
  \<^verbatim>\<open>ctx.Done()\<close>.
\<close>

datatype start_status = Returned | Panicked | Waiting | Serving

record StartResult =
  r_service :: Service
  r_status :: start_status
  r_started :: "routine list"
  r_sleeps :: nat
  r_log :: "log_entry list"

text \<open>Start from the platform check on: lines 79 to 112 of oracle.go.\<close>

definition startOnPlatform ::
    "string \<Rightarrow> OracleConfiguration \<Rightarrow> Service \<Rightarrow> nat \<Rightarrow> log_entry list \<Rightarrow> StartResult" where
  "startOnPlatform goos oc s sleeps lg =
     (if goos \<noteq> ''linux''
      then \<lparr>r_service = s, r_status = Returned, r_started = [], r_sleeps = sleeps,
            r_log = lg @ [LogError ''Oracle service is only supported on Linux'']\<rparr>
      else
        (let (s1, started1) =
               (if discoveryEnabled oc
                then (s\<lparr>discoveryRoutine :=
                          Some \<lparr>Routine = runDiscovery,
                                rr_ErrorCode = OracleDiscoverDatabaseFailure,
                                ExpectedMinDuration = 20\<rparr>\<rparr>, [runDiscovery])
                else (s, []));
             (s2, started2) =
               (if metricsEnabled oc
                then (s1\<lparr>metricCollectionRoutine :=
                           Some \<lparr>Routine = runMetricCollection,
                                 rr_ErrorCode = OracleMetricCollectionFailure,
                                 ExpectedMinDuration = 20\<rparr>\<rparr>, started1 @ [runMetricCollection])
                else (s1, started1))
         in \<lparr>r_service = s2, r_status = Serving, r_started = started2, r_sleeps = sleeps,
             r_log = lg\<rparr>))"

text \<open>
  \<^verbatim>\<open>Service.Start\<close>.  \<open>goos\<close> is \<^verbatim>\<open>runtime.GOOS\<close>; the schedule is that of the handler
  goroutine, which keeps running whatever Start does, so the steps Start did not wait
  for are applied to the service at the end.  The field access \<^verbatim>\<open>.Enabled\<close> on a nil
  Oracle configuration panics.
\<close>

definition Start :: "string \<Rightarrow> comm_step list list \<Rightarrow> Service \<Rightarrow> StartResult" where
  "Start goos sched s =
     (case cfg_OracleConfiguration (Config s) of
        None \<Rightarrow>
          \<lparr>r_service = runHandler (concat sched) s, r_status = Panicked, r_started = [],
           r_sleeps = 0, r_log = []\<rparr>
      | Some oc \<Rightarrow>
          (case oc_Enabled oc of
             None \<Rightarrow>
               (let lg = [LogInfo ''Oracle service enabled field is not set, will check for workload presence to determine if service should be enabled.''];
                    (s', sleeps, present, rest) = waitForWorkload s sched 0
                in if present
                   then (let r = startOnPlatform goos oc s' sleeps
                                   (lg @ [LogInfo ''Oracle workload is present. Starting service.''])
                         in r\<lparr>r_service := runHandler (concat rest) (r_service r)\<rparr>)
                   else \<lparr>r_service = s', r_status = Waiting, r_started = [],
                         r_sleeps = sleeps, r_log = lg\<rparr>)
           | Some enabled \<Rightarrow>
               (if \<not> enabled
                then \<lparr>r_service = runHandler (concat sched) s, r_status = Returned,
                      r_started = [], r_sleeps = 0,
                      r_log = [LogInfo ''Oracle service is disabled'']\<rparr>
                else (let r = startOnPlatform goos oc s 0 []
                      in r\<lparr>r_service := runHandler (concat sched) (r_service r)\<rparr>))))"

section \<open>Package discovery: the process-discovery fan-out\<close>

text \<open>
  A Go channel of messages: its capacity (0 for an unbuffered channel), the messages
  waiting in its buffer, the number of receivers parked on it, and the messages its
  receivers have taken so far.  A receiver parks only on an empty buffer.  The slice of
  subscriber channels holds references, so the channels live in a store and the slice is
  a list of their ids; the same channel may stand in it twice.  A nil channel is a
  channel of capacity 0 on which no receiver ever parks.
\<close>

record Chan =
  cap :: nat
  buf :: "Message list"
  parked :: nat
  delivered :: "Message list"

type_synonym chan_id = nat
type_synonym chan_store = "chan_id \<Rightarrow> Chan"

text \<open>
  A send in a \<^verbatim>\<open>select\<close> with a \<^verbatim>\<open>default\<close> case goes through when a receiver is
  parked on the channel, who then takes the message directly, or when the buffer has
  room; otherwise the \<^verbatim>\<open>default\<close> case runs.
\<close>

definition sendReady :: "chan_store \<Rightarrow> chan_id \<Rightarrow> bool" where
  "sendReady st ch =
     ((0 < parked (st ch) \<and> buf (st ch) = []) \<or> length (buf (st ch)) < cap (st ch))"

definition deliver :: "Message \<Rightarrow> chan_id \<Rightarrow> chan_store \<Rightarrow> chan_store" where
  "deliver m ch st =
     (if 0 < parked (st ch) \<and> buf (st ch) = []
      then st(ch := (st ch)\<lparr>parked := parked (st ch) - 1,
                            delivered := delivered (st ch) @ [m]\<rparr>)
      else st(ch := (st ch)\<lparr>buf := buf (st ch) @ [m]\<rparr>))"

text \<open>
  What the subscribers do beside the fan-out: a receiver starts a receive on a channel,
  taking the oldest message of the buffer or parking when the buffer is empty; a parked
  receiver gives up its receive (another case of its \<^verbatim>\<open>select\<close> fires).
\<close>

datatype sub_action = StartReceive chan_id | AbandonReceive chan_id

fun subscriberStep :: "sub_action \<Rightarrow> chan_store \<Rightarrow> chan_store" where
  "subscriberStep (StartReceive ch) st =
     (case buf (st ch) of
        [] \<Rightarrow> st(ch := (st ch)\<lparr>parked := parked (st ch) + 1\<rparr>)
      | m # rest \<Rightarrow> st(ch := (st ch)\<lparr>buf := rest, delivered := delivered (st ch) @ [m]\<rparr>))"
| "subscriberStep (AbandonReceive ch) st =
     (if 0 < parked (st ch) then st(ch := (st ch)\<lparr>parked := parked (st ch) - 1\<rparr>) else st)"

text \<open>
  \<^verbatim>\<open>processLister.listAllProcesses\<close> answers with the Go pair of a process slice and an
  error.
\<close>

type_synonym listing = "ProcessWrapper list \<times> error option"

definition commonDiscoveryLoop :: "listing \<Rightarrow> DiscoveryResult \<times> error option" where
  "commonDiscoveryLoop l =
     (case l of
        (ps, Some err) \<Rightarrow> (\<lparr>Processes = []\<rparr>, Some err)
      | (ps, None) \<Rightarrow>
          (if length ps < 1 then (\<lparr>Processes = []\<rparr>, Some (Error ''no processes found''))
           else (\<lparr>Processes = ps\<rparr>, None)))"

text \<open>
  The loop over the subscriber channels, lines 137 to 144 of discovery.go: one
  \<^verbatim>\<open>select\<close> with a \<^verbatim>\<open>default\<close> case per entry of the slice.  The subscribers run
  beside the loop: \<open>acts\<close> lists, for each entry in turn, what they do between the send
  before and the send on that entry (nothing, once the list has run out).  Besides the
  store and the tally \<open>fullChs\<close> the model returns, for each entry in order, the channel
  and whether the send went through.
\<close>

definition nextActs :: "sub_action list list \<Rightarrow> sub_action list" where
  "nextActs acts = (case acts of [] \<Rightarrow> [] | a # _ \<Rightarrow> a)"

fun fanOut ::
    "Message \<Rightarrow> chan_id list \<Rightarrow> sub_action list list \<Rightarrow> chan_store \<Rightarrow> nat
       \<Rightarrow> (chan_id \<times> bool) list \<Rightarrow> chan_store \<times> nat \<times> (chan_id \<times> bool) list" where
  "fanOut m [] acts st fullChs attempts = (st, fullChs, attempts)"
| "fanOut m (ch # chs) acts st fullChs attempts =
     (let st1 = fold subscriberStep (nextActs acts) st
      in if sendReady st1 ch
         then fanOut m chs (drop 1 acts) (deliver m ch st1) fullChs (attempts @ [(ch, True)])
         else fanOut m chs (drop 1 acts) st1 (fullChs + 1) (attempts @ [(ch, False)]))"

text \<open>
  One round of the loop of \<^verbatim>\<open>CommonDiscovery\<close> meets: the answer of the process lister,
  what the subscribers do beside the sends, the case of the closing \<^verbatim>\<open>select\<close> that
  fires, and what the subscribers do after the last send and before the next round.
\<close>

datatype wake = CtxCancelled | TickerFired

record round_env =
  listed :: listing
  beside :: "sub_action list list"
  woke :: wake
  afterwards :: "sub_action list"

datatype exit_status =
  ArgPanic | BadArgs | TickerPanic | ListingFailed error | Cancelled | AwaitingRound

record round_report =
  rr_message :: Message
  rr_attempts :: "(chan_id \<times> bool) list"
  rr_fullChs :: nat

record DiscoveryRun =
  d_store :: chan_store
  d_exit :: exit_status
  d_rounds :: "round_report list"
  d_log :: "log_entry list"

text \<open>The two log lines of a round that sends: the processes found and the full channels.\<close>

definition roundLog :: "log_entry list \<Rightarrow> DiscoveryResult \<Rightarrow> nat \<Rightarrow> log_entry list" where
  "roundLog lg discoveryResult fullChs =
     lg @ [LogInfo (''CommonDiscovery found ''
                     @ Itoa (int (length (Processes discoveryResult))) @ '' processes.'')]
        @ (if fullChs > 0
           then [LogInfo (''CommonDiscovery found '' @ Itoa (int fullChs)
                           @ '' full channels that it was unable to write to.'')]
           else [])"

fun discoveryRounds ::
    "chan_id list \<Rightarrow> round_env list \<Rightarrow> chan_store \<Rightarrow> round_report list \<Rightarrow> log_entry list
       \<Rightarrow> DiscoveryRun" where
  "discoveryRounds chs [] st reports lg =
     \<lparr>d_store = st, d_exit = AwaitingRound, d_rounds = reports, d_log = lg\<rparr>"
| "discoveryRounds chs (r # rs) st reports lg =
     (case commonDiscoveryLoop (listed r) of
        (_, Some err) \<Rightarrow>
          \<lparr>d_store = st, d_exit = ListingFailed err, d_rounds = reports,
           d_log = lg @ [LogError ''Failed to perform common discovery'']\<rparr>
      | (discoveryResult, None) \<Rightarrow>
          (let msg = \<lparr>Origin = Discovery, msg_DiscoveryResult = discoveryResult\<rparr>;
               (st', fullChs, attempts) = fanOut msg chs (beside r) st 0 [];
               lg2 = roundLog lg discoveryResult fullChs;
               reports' = reports @ [\<lparr>rr_message = msg, rr_attempts = attempts,
                                      rr_fullChs = fullChs\<rparr>]
           in case woke r of
                CtxCancelled \<Rightarrow>
                  \<lparr>d_store = st', d_exit = Cancelled, d_rounds = reports',
                   d_log = lg2 @ [LogInfo ''CommonDiscovery cancellation requested'']\<rparr>
              | TickerFired \<Rightarrow>
                  discoveryRounds chs rs (fold subscriberStep (afterwards r) st') reports'
                    (lg2 @ [LogDebug ''CommonDiscovery ticker fired''])))"

text \<open>
  The argument \<^verbatim>\<open>a any\<close> of \<^verbatim>\<open>CommonDiscovery\<close>: the nil interface, a value of
  another type, or a slice of send channels.
\<close>

datatype discovery_arg = NilArg | OtherArg | Channels "chan_id list"

text \<open>
  \<^verbatim>\<open>Service.CommonDiscovery\<close>.  When the argument is not a slice of send channels the
  code builds the warning from \<^verbatim>\<open>reflect.TypeOf(a).Kind()\<close>, which panics on the nil
  interface before anything is logged, and otherwise logs the warning and returns.  The
  period is 3 hours unless the configuration gives one, in nanoseconds;
  \<^verbatim>\<open>time.NewTicker\<close> panics on a period that is not positive.
\<close>

definition frequencyOf :: "Configuration \<Rightarrow> int" where
  "frequencyOf cfg =
     (case cfg_CommonDiscovery cfg of
        None \<Rightarrow> 3 * 3600 * 1000000000
      | Some cd \<Rightarrow>
          (case CollectionFrequency cd of
             None \<Rightarrow> 3 * 3600 * 1000000000
           | Some f \<Rightarrow> f))"

definition CommonDiscovery ::
    "Configuration \<Rightarrow> discovery_arg \<Rightarrow> round_env list \<Rightarrow> chan_store \<Rightarrow> DiscoveryRun" where
  "CommonDiscovery cfg a env st =
     (let lg = [LogInfo ''CommonDiscovery started'']
      in case a of
           NilArg \<Rightarrow> \<lparr>d_store = st, d_exit = ArgPanic, d_rounds = [], d_log = lg\<rparr>
         | OtherArg \<Rightarrow>
             \<lparr>d_store = st, d_exit = BadArgs, d_rounds = [],
              d_log = lg @ [LogWarn ''args is not of type []chan servicecommunication.Message'']\<rparr>
         | Channels chs \<Rightarrow>
             (if frequencyOf cfg \<le> 0
              then \<lparr>d_store = st, d_exit = TickerPanic, d_rounds = [], d_log = lg\<rparr>
              else discoveryRounds chs env st [] lg))"

section \<open>Notions the properties are stated with\<close>

text \<open>
  A process is named like an Oracle instance when its name lookup succeeds with a name
  that starts with \<^verbatim>\<open>ora_pmon_\<close> or \<^verbatim>\<open>db_pmon_\<close>.  A message announces an Oracle
  workload when it comes from discovery and lists such a process.  A step of the handler latches the flag when the context is live, a
  message is received and the message announces the workload.
\<close>

definition namedLikeOracle :: "ProcessWrapper \<Rightarrow> bool" where
  "namedLikeOracle p =
     (case Name p of
        Inr name \<Rightarrow> HasPrefix name ''ora_pmon_'' \<or> HasPrefix name ''db_pmon_''
      | Inl err \<Rightarrow> False)"

definition announcesOracle :: "Message \<Rightarrow> bool" where
  "announcesOracle msg =
     (Origin msg = Discovery \<and> list_ex namedLikeOracle (Processes (msg_DiscoveryResult msg)))"

definition latches :: "comm_step \<Rightarrow> bool" where
  "latches st =
     (\<not> fst st \<and> (case snd st of Receive msg \<Rightarrow> announcesOracle msg | CtxDone \<Rightarrow> False))"

text \<open>The routines the configuration enables, in the order Start starts them.\<close>

definition enabledRoutines :: "OracleConfiguration \<Rightarrow> routine list" where
  "enabledRoutines oc =
     (if discoveryEnabled oc then [runDiscovery] else [])
     @ (if metricsEnabled oc then [runMetricCollection] else [])"

text \<open>
  The store at the time of the send on entry \<open>i\<close> of the slice: the store after the sends
  on the entries before it and after what the subscribers did since.  The buffer of a
  channel is full when it holds as many messages as the channel's capacity.  A channel is
  full when its buffer is full and no receiver is parked on it before an empty buffer:
  for a channel that has a buffer that is a full buffer, for an unbuffered channel it is
  that no receiver is parked.
\<close>

definition storeAtSend ::
    "Message \<Rightarrow> chan_id list \<Rightarrow> sub_action list list \<Rightarrow> chan_store \<Rightarrow> nat \<Rightarrow> chan_store" where
  "storeAtSend m chs acts st i =
     fold subscriberStep (nextActs (drop i acts)) (fst (fanOut m (take i chs) acts st 0 []))"

definition bufferFull :: "chan_store \<Rightarrow> chan_id \<Rightarrow> bool" where
  "bufferFull st ch = (cap (st ch) \<le> length (buf (st ch)))"

definition chanFull :: "chan_store \<Rightarrow> chan_id \<Rightarrow> bool" where
  "chanFull st ch = (bufferFull st ch \<and> \<not> (0 < parked (st ch) \<and> buf (st ch) = []))"

text \<open>
  A tick of the Postgres collector emits the work_mem value \<open>v\<close> when it hands the
  shipper, in one call, the request built from the \<^verbatim>\<open>POSTGRES\<close> batch whose
  \<^verbatim>\<open>work_mem\<close> metric is \<open>v\<close>, and returns that batch unless the shipper answers with an
  error, which it then returns instead.  The client is any client: for one that records
  its calls, the record grows by exactly that request.
\<close>

definition emitsWorkMem ::
    "string \<Rightarrow> dbInterface \<Rightarrow> 'c WLMWriter \<Rightarrow> CloudProperties \<Rightarrow> 'c \<Rightarrow> string \<Rightarrow> bool" where
  "emitsWorkMem av db w cp c v =
     (let answer = w c (ProjectId cp) (Region cp)
                     (createWriteInsightRequest av (work_mem_batch v) cp)
      in CollectMetricsOnce av \<lparr>pg_db = db, pg_WLMClient = w, pg_CloudProps = cp\<rparr> c
           = ((case snd (fst answer) of
                 None \<Rightarrow> Inr (work_mem_batch v)
               | Some e \<Rightarrow> Inl e),
              snd answer,
              (case snd (fst answer) of
                 None \<Rightarrow> []
               | Some e \<Rightarrow> [DataWarehouseWriteInsightFailure])))"

text \<open>A round after which the loop goes on: the listing succeeded and the ticker fired.\<close>

definition reachesNextRound :: "round_env \<Rightarrow> bool" where
  "reachesNextRound r = (snd (commonDiscoveryLoop (listed r)) = None \<and> woke r = TickerFired)"

section \<open>Test doubles of the repository\<close>

text \<open>
  The row doubles of the test files (\<^verbatim>\<open>workMemRows\<close>, \<^verbatim>\<open>replicaRows\<close>,
  \<^verbatim>\<open>replicationZonesRows\<close>, each with \<^verbatim>\<open>count: 0\<close>): \<^verbatim>\<open>Next\<close> is true \<open>sz\<close> times (the field \<^verbatim>\<open>size\<close>),
  and every \<^verbatim>\<open>Scan\<close> gives \<open>data\<close>, or the error \<^verbatim>\<open>test-error\<close> when \<open>shouldErr\<close> is
  set.
\<close>

definition fakeRows :: "nat \<Rightarrow> string \<Rightarrow> bool \<Rightarrow> rowsInterface" where
  "fakeRows sz data shouldErr =
     replicate sz (if shouldErr then Inl (Error ''test-error'') else Inr data)"

text \<open>\<^verbatim>\<open>testDB\<close> of the postgresmetrics tests and its \<^verbatim>\<open>QueryContext\<close>.\<close>

record pg_testDB =
  workMemRows :: "rowsInterface option"
  workMemErr :: "error option"

definition pg_QueryContext :: "pg_testDB \<Rightarrow> dbInterface" where
  "pg_QueryContext t query =
     (if query = ''SHOW work_mem'' then (workMemRows t, workMemErr t) else (None, None))"

text \<open>
  \<^verbatim>\<open>testDB\<close> of the mysqlmetrics tests and its \<^verbatim>\<open>QueryContext\<close>, with the fields the
  modelled functions query.  The constant \<^verbatim>\<open>replicationZonesQuery\<close> is a parameter.
\<close>

record my_testDB =
  replicaRows :: "rowsInterface option"
  replicaErr :: "error option"
  slaveRows :: "rowsInterface option"
  slaveErr :: "error option"
  replicationZonesRows :: "rowsInterface option"
  replicationZonesErr :: "error option"

definition my_QueryContext :: "string \<Rightarrow> my_testDB \<Rightarrow> dbInterface" where
  "my_QueryContext replicationZonesQuery t query =
     (if query = ''SHOW REPLICA STATUS'' then (replicaRows t, replicaErr t)
      else if query = ''SHOW SLAVE STATUS'' then (slaveRows t, slaveErr t)
      else if query = replicationZonesQuery then (replicationZonesRows t, replicationZonesErr t)
      else (None, None))"

definition emptyDB :: my_testDB where
  "emptyDB = \<lparr>replicaRows = None, replicaErr = None, slaveRows = None, slaveErr = None,
              replicationZonesRows = None, replicationZonesErr = None\<rparr>"

text \<open>
  \<^verbatim>\<open>mockNetInterface\<close> of the mysqlmetrics tests.  A lookup in a Go map that lacks the key
  gives the nil slice.  \<^verbatim>\<open>ParseIP\<close> answers for the two addresses the mock knows and asks
  the library for the rest; the library's parser is the parameter \<open>parseIP\<close>.
\<close>

record mockNet =
  lookupHostValue :: "string \<rightharpoonup> string list"
  lookupHostErr :: "string \<rightharpoonup> error"
  lookupAddrValue :: "string \<rightharpoonup> string list"
  lookupAddrErr :: "string \<rightharpoonup> error"

definition mockNetInterface :: "(string \<Rightarrow> string option) \<Rightarrow> mockNet \<Rightarrow> netInterface" where
  "mockNetInterface parseIP m =
     \<lparr>LookupHost = (\<lambda>host.
         case lookupHostErr m host of
           Some err \<Rightarrow> ([], Some err)
         | None \<Rightarrow> (case lookupHostValue m host of None \<Rightarrow> [] | Some v \<Rightarrow> v, None)),
      ParseIP = (\<lambda>ip.
         if ip = [] then None
         else if ip = ''1.2.3.4'' \<or> ip = ''5.6.7.8'' then Some ''127.0.0.1''
         else parseIP ip),
      LookupAddr = (\<lambda>ip.
         case lookupAddrErr m ip of
           Some err \<Rightarrow> ([], Some err)
         | None \<Rightarrow> (case lookupAddrValue m ip of None \<Rightarrow> [] | Some v \<Rightarrow> v, None))\<rparr>"

definition emptyNet :: mockNet where
  "emptyNet = \<lparr>lookupHostValue = Map.empty, lookupHostErr = Map.empty,
               lookupAddrValue = Map.empty, lookupAddrErr = Map.empty\<rparr>"

section \<open>Example inputs\<close>

definition example_oc :: "bool option \<Rightarrow> OracleConfiguration" where
  "example_oc enabled =
     \<lparr>oc_Enabled = enabled,
      oc_OracleDiscovery = Some \<lparr>od_Enabled = Some True\<rparr>,
      oc_OracleMetrics = Some \<lparr>om_Enabled = Some True\<rparr>\<rparr>"

definition example_service :: "bool option \<Rightarrow> Service" where
  "example_service enabled =
     \<lparr>Config = \<lparr>cfg_OracleConfiguration = Some (example_oc enabled),
                cfg_CommonDiscovery = None\<rparr>,
      metricCollectionRoutine = None, discoveryRoutine = None,
      isProcessPresent = False, processes = []\<rparr>"

definition example_process :: "string \<Rightarrow> ProcessWrapper" where
  "example_process name =
     \<lparr>Pid = 100, Name = Inr name, Username = Inr ''oracle'',
      CmdlineSlice = Inr [name], Environ = Inl (Error ''permission denied'')\<rparr>"

definition example_message :: "MessageOrigin \<Rightarrow> string list \<Rightarrow> Message" where
  "example_message origin names =
     \<lparr>Origin = origin, msg_DiscoveryResult = \<lparr>Processes = map example_process names\<rparr>\<rparr>"

text \<open>
  Four subscriber channels: channel 0 has room for one message and is empty, channel 1
  has room for one and holds one, channel 2 has room for two and is empty, channel 3 is
  unbuffered with one receiver parked; every other id is a nil channel.
\<close>

definition example_store :: chan_store where
  "example_store =
     (\<lambda>ch. if ch = 0 then \<lparr>cap = 1, buf = [], parked = 0, delivered = []\<rparr>
           else if ch = 1
           then \<lparr>cap = 1, buf = [example_message DWActivation []], parked = 0, delivered = []\<rparr>
           else if ch = 2 then \<lparr>cap = 2, buf = [], parked = 0, delivered = []\<rparr>
           else if ch = 3 then \<lparr>cap = 0, buf = [], parked = 1, delivered = []\<rparr>
           else \<lparr>cap = 0, buf = [], parked = 0, delivered = []\<rparr>)"

text \<open>
  A round in which the subscribers do nothing beside the sends, and a round in which a
  subscriber takes the message of channel 0 between the fourth and the fifth send and
  one starts a receive on channel 1 after the last send.
\<close>

definition example_round :: "string list \<Rightarrow> wake \<Rightarrow> round_env" where
  "example_round names w =
     \<lparr>listed = (map example_process names, None), beside = [], woke = w, afterwards = []\<rparr>"

definition example_busy_round :: "string list \<Rightarrow> wake \<Rightarrow> round_env" where
  "example_busy_round names w =
     \<lparr>listed = (map example_process names, None),
      beside = [[], [], [], [], [StartReceive 0]], woke = w,
      afterwards = [StartReceive 1]\<rparr>"

definition example_cloud :: CloudProperties where
  "example_cloud =
     \<lparr>ProjectId = ''test-project'', InstanceId = ''1234'', InstanceName = ''test-instance'',
      Region = ''us-central1''\<rparr>"

section \<open>Theorems\<close>

subsection \<open>The workload-type table\<close>

lemma workloadTypeMap_cases:
  "workloadTypeMap wt =
     (if wt = ORACLE then Some TorsoValidation_ORACLE
      else if wt = MYSQL then Some TorsoValidation_MYSQL
      else if wt = REDIS then Some TorsoValidation_REDIS
      else if wt = UNKNOWN then Some TorsoValidation_WORKLOAD_TYPE_UNSPECIFIED
      else None)"
  by (simp add: workloadTypeMap_def)

lemma request_workload_type_create:
  "request_workload_type (createWriteInsightRequest av wm cp) =
     (if WorkloadType wm = ORACLE then TorsoValidation_ORACLE
      else if WorkloadType wm = MYSQL then TorsoValidation_MYSQL
      else if WorkloadType wm = REDIS then TorsoValidation_REDIS
      else TorsoValidation_WORKLOAD_TYPE_UNSPECIFIED)"
  by (simp add: request_workload_type_def createWriteInsightRequest_def
      workloadTypeMap_cases)

text \<open>
  C1, as stated, fails: \<^verbatim>\<open>POSTGRES\<close> is a declared workload kind, yet the request
  built for a \<^verbatim>\<open>POSTGRES\<close> batch carries \<^verbatim>\<open>WORKLOAD_TYPE_UNSPECIFIED\<close>, because the
  map literal has no entry for it.
\<close>

theorem C1_postgres_unspecified_counterexample:
  "POSTGRES \<in> set declared_kinds \<and>
   request_workload_type
     (createWriteInsightRequest ''1.0''
        \<lparr>WorkloadType = POSTGRES, Metrics = Map.empty\<rparr>
        \<lparr>ProjectId = ''p'', InstanceId = ''i'', InstanceName = ''n'', Region = ''r''\<rparr>)
     = TorsoValidation_WORKLOAD_TYPE_UNSPECIFIED"
  by (simp add: request_workload_type_create declared_kinds_def WorkloadType_defs)

text \<open>
  C1, amended: for every batch given to \<^verbatim>\<open>createWriteInsightRequest\<close> the workload
  type of the request is read off the fixed table: \<^verbatim>\<open>ORACLE\<close>, \<^verbatim>\<open>MYSQL\<close> and
  \<^verbatim>\<open>REDIS\<close> go to their TorsoValidation values, and exactly the other kinds
  (\<^verbatim>\<open>POSTGRES\<close>, \<^verbatim>\<open>MONGODB\<close>, \<^verbatim>\<open>UNKNOWN\<close> and every undeclared string) become
  \<^verbatim>\<open>WORKLOAD_TYPE_UNSPECIFIED\<close>.  The metrics of the batch are the validation details
  of the request.
\<close>

theorem C1_workload_type_mapping:
  "(request_workload_type (createWriteInsightRequest av wm cp) = TorsoValidation_ORACLE
      \<longleftrightarrow> WorkloadType wm = ORACLE) \<and>
   (request_workload_type (createWriteInsightRequest av wm cp) = TorsoValidation_MYSQL
      \<longleftrightarrow> WorkloadType wm = MYSQL) \<and>
   (request_workload_type (createWriteInsightRequest av wm cp) = TorsoValidation_REDIS
      \<longleftrightarrow> WorkloadType wm = REDIS) \<and>
   (request_workload_type (createWriteInsightRequest av wm cp)
        = TorsoValidation_WORKLOAD_TYPE_UNSPECIFIED
      \<longleftrightarrow> WorkloadType wm \<notin> {ORACLE, MYSQL, REDIS}) \<and>
   {POSTGRES, MONGODB, UNKNOWN} \<inter> {ORACLE, MYSQL, REDIS} = {} \<and>
   tv_ValidationDetails (ins_TorsoValidation (req_Insight (createWriteInsightRequest av wm cp)))
     = Metrics wm"
  by (simp add: request_workload_type_create WorkloadType_defs)
     (simp add: createWriteInsightRequest_def)

subsection \<open>Decimal conversion\<close>

lemma digit_char_simps:
  "digit_char 0 = CHR ''0''" "digit_char 1 = CHR ''1''" "digit_char 2 = CHR ''2''"
  "digit_char 3 = CHR ''3''" "digit_char 4 = CHR ''4''" "digit_char 5 = CHR ''5''"
  "digit_char 6 = CHR ''6''" "digit_char 7 = CHR ''7''" "digit_char 8 = CHR ''8''"
  "digit_char 9 = CHR ''9''" "digit_char (Suc 0) = CHR ''1''"
  by code_simp+

lemma is_digit_simps:
  "is_digit CHR ''0''" "is_digit CHR ''1''" "is_digit CHR ''2''" "is_digit CHR ''3''"
  "is_digit CHR ''4''" "is_digit CHR ''5''" "is_digit CHR ''6''" "is_digit CHR ''7''"
  "is_digit CHR ''8''" "is_digit CHR ''9''"
  "\<not> is_digit CHR ''k''" "\<not> is_digit CHR ''M''" "\<not> is_digit CHR ''G''"
  "\<not> is_digit CHR ''-''" "\<not> is_digit CHR ''+''"
  by (simp_all add: is_digit_def)

lemma digit_val_digit_char: "d < 10 \<Longrightarrow> digit_val (digit_char d) = d"
  by (simp add: digit_val_def digit_char_def)

lemma decimalValue_snoc: "decimalValue (ds @ [c]) = 10 * decimalValue ds + digit_val c"
  by (simp add: decimalValue_def)

text \<open>Printing a number and reading it back gives the number.\<close>

lemma decimalValue_decimal: "decimalValue (decimal n) = n"
proof (induction n rule: decimal.induct)
  case (1 n)
  show ?case
  proof (cases "n < 10")
    case True
    then show ?thesis by (simp add: decimal.simps decimalValue_def digit_val_digit_char)
  next
    case False
    then have "decimalValue (decimal n)
                 = 10 * decimalValue (decimal (n div 10)) + digit_val (digit_char (n mod 10))"
      by (subst decimal.simps) (simp add: decimalValue_snoc)
    with False 1 show ?thesis by (simp add: digit_val_digit_char)
  qed
qed

lemma Itoa_examples:
  "Itoa 83886080 = ''83886080''" "Itoa 65536 = ''65536''"
  "Itoa 4294967296 = ''4294967296''" "Itoa 67108864 = ''67108864''"
  by (simp_all add: Itoa_def decimal.simps digit_char_simps)

lemma Atoi_digits:
  assumes "ds \<noteq> []" "list_all is_digit ds" "int (decimalValue ds) \<le> maxInt"
  shows "Atoi ds = Inr (int (decimalValue ds))"
proof -
  from assms(1) obtain c rest where ds: "ds = c # rest" by (cases ds) auto
  with assms(2) have "is_digit c" by simp
  then have "c \<noteq> CHR ''-''" "c \<noteq> CHR ''+''" using is_digit_simps by auto
  moreover have "\<not> int (decimalValue ds) < minInt" by (simp add: minInt_def)
  ultimately show ?thesis using assms ds by (simp add: Atoi_def)
qed

lemma wrapInt_in_range: "minInt \<le> x \<Longrightarrow> x \<le> maxInt \<Longrightarrow> wrapInt x = x"
  by (simp add: wrapInt_def minInt_def maxInt_def)

text \<open>Beyond the range of \<^verbatim>\<open>int\<close> the digits do not parse.\<close>

lemma Atoi_out_of_range: "Atoi ''9223372036854775808'' = Inl (Error ''value out of range'')"
  by (simp add: Atoi_def is_digit_simps decimalValue_def digit_val_def maxInt_def minInt_def)

subsection \<open>Postgres: the work_mem reading\<close>

lemma unitMultiplier_cases:
  "unitMultiplier u = Some m \<Longrightarrow> (u = ''kB'' \<or> u = ''MB'' \<or> u = ''GB'') \<and> 1 \<le> m"
  by (auto simp: unitMultiplier_def split: if_splits)

lemma takeWhile_digits_unit:
  assumes "list_all is_digit ds" "unitMultiplier u = Some m"
  shows "takeWhile is_digit (ds @ u) = ds" "dropWhile is_digit (ds @ u) = u"
proof -
  from assms(2) have u: "u = ''kB'' \<or> u = ''MB'' \<or> u = ''GB''"
    by (simp add: unitMultiplier_cases)
  then have "takeWhile is_digit u = []" "dropWhile is_digit u = u"
    by (auto simp: is_digit_simps)
  moreover from assms(1) have "\<forall>x\<in>set ds. is_digit x" by (simp add: list_all_iff)
  ultimately show "takeWhile is_digit (ds @ u) = ds" "dropWhile is_digit (ds @ u) = u"
    by (simp_all add: takeWhile_append2 dropWhile_append2)
qed

lemma parseWorkMem_digits_unit_int:
  assumes "ds \<noteq> []" "list_all is_digit ds" "unitMultiplier u = Some m"
    and parses: "int (decimalValue ds) \<le> maxInt"
  shows "parseWorkMem (ds @ u) = Inr (wrapInt (int (decimalValue ds) * m))"
  using assms by (simp add: parseWorkMem_def takeWhile_digits_unit Atoi_digits)

lemma parseWorkMem_digits_unit:
  assumes "ds \<noteq> []" "list_all is_digit ds" "unitMultiplier u = Some m"
    and fits: "int (decimalValue ds) * m \<le> maxInt"
  shows "parseWorkMem (ds @ u) = Inr (int (decimalValue ds) * m)"
proof -
  from assms(3) have m: "1 \<le> m" by (simp add: unitMultiplier_cases)
  have nonneg: "0 \<le> int (decimalValue ds)" by simp
  from m nonneg have "int (decimalValue ds) * 1 \<le> int (decimalValue ds) * m"
    by (intro mult_left_mono) auto
  with fits have small: "int (decimalValue ds) \<le> maxInt" by simp
  from m nonneg have "0 \<le> int (decimalValue ds) * m" by simp
  then have "minInt \<le> int (decimalValue ds) * m" by (simp add: minInt_def)
  with fits have "wrapInt (int (decimalValue ds) * m) = int (decimalValue ds) * m"
    by (simp add: wrapInt_in_range)
  with parseWorkMem_digits_unit_int [OF assms(1-3) small] show ?thesis by simp
qed

lemma parseWorkMem_examples:
  "parseWorkMem ''80MB'' = Inr 83886080" "parseWorkMem ''64kB'' = Inr 65536"
  "parseWorkMem ''4GB'' = Inr 4294967296" "parseWorkMem ''64MB'' = Inr 67108864"
  by (simp_all add: parseWorkMem_def Atoi_def is_digit_simps unitMultiplier_def
      decimalValue_def digit_val_def wrapInt_def maxInt_def minInt_def)

lemma getWorkMem_single_row:
  "db ''SHOW work_mem'' = (Some [Inr s], None) \<Longrightarrow> getWorkMem db = parseWorkMem s"
  by (simp add: getWorkMem_def)

lemma SendDataInsight_result:
  assumes "w c (ProjectId cp) (Region cp) (createWriteInsightRequest av wm cp) = ((res, err), c')"
  shows "SendDataInsight av \<lparr>WLMetrics = wm, CloudProps = cp, WLMService = w\<rparr> c
           = ((case err of None \<Rightarrow> res | Some e \<Rightarrow> None, err), c',
              (case err of None \<Rightarrow> [] | Some e \<Rightarrow> [DataWarehouseWriteInsightFailure]))"
  using assms by (simp add: SendDataInsight_def split: option.splits)

lemma CollectMetricsOnce_result:
  assumes "getWorkMem db = Inr k"
    and "w c (ProjectId cp) (Region cp) (createWriteInsightRequest av (work_mem_batch (Itoa k)) cp)
         = ((res, err), c')"
  shows "CollectMetricsOnce av \<lparr>pg_db = db, pg_WLMClient = w, pg_CloudProps = cp\<rparr> c
           = ((case err of None \<Rightarrow> Inr (work_mem_batch (Itoa k)) | Some e \<Rightarrow> Inl e), c',
              (case err of None \<Rightarrow> [] | Some e \<Rightarrow> [DataWarehouseWriteInsightFailure]))"
  using assms(1)
    SendDataInsight_result [of w c cp av "work_mem_batch (Itoa k)" res err c'] assms(2)
  by (simp add: CollectMetricsOnce_def work_mem_batch_def Let_def split: option.splits)

text \<open>
  Whatever the client answers, the tick hands it the request built from the batch of the
  parsed value.
\<close>

lemma CollectMetricsOnce_emits:
  assumes row: "db ''SHOW work_mem'' = (Some [Inr s], None)"
    and parse: "parseWorkMem s = Inr k"
  shows "emitsWorkMem av db w cp c (Itoa k)"
proof -
  from parse row have g: "getWorkMem db = Inr k" by (simp add: getWorkMem_single_row)
  obtain res err c' where
    r: "w c (ProjectId cp) (Region cp) (createWriteInsightRequest av (work_mem_batch (Itoa k)) cp)
          = ((res, err), c')"
    by (metis surj_pair)
  from CollectMetricsOnce_result [of db k w c cp av res err c'] g r
  show ?thesis by (simp add: emitsWorkMem_def)
qed

text \<open>
  C5: when the database answers \<^verbatim>\<open>SHOW work_mem\<close> with a single row whose value is
  \<open>s\<close>, a tick of \<^verbatim>\<open>CollectMetricsOnce\<close> (modelled from the spec) emits the work_mem
  metric as follows, whatever the client answers to the shipment.  If \<open>s\<close> is a number
  followed by \<^verbatim>\<open>kB\<close>, \<^verbatim>\<open>MB\<close> or \<^verbatim>\<open>GB\<close> and the byte count is one of Go's
  \<^verbatim>\<open>int\<close>, the metric is the number times 1024, 1024 squared or 1024 cubed, in decimal;
  whenever the number itself is one of Go's \<^verbatim>\<open>int\<close>, the metric is the product as Go
  computes it.  \<^verbatim>\<open>80MB\<close> gives \<^verbatim>\<open>83886080\<close>, \<^verbatim>\<open>64kB\<close> gives \<^verbatim>\<open>65536\<close> and
  \<^verbatim>\<open>4GB\<close> gives \<^verbatim>\<open>4294967296\<close>.  The batch is of workload type \<^verbatim>\<open>POSTGRES\<close> and
  holds the one metric \<^verbatim>\<open>work_mem\<close>.
\<close>

theorem C5_work_mem_normalization:
  assumes row: "db ''SHOW work_mem'' = (Some [Inr s], None)"
  shows "(ds \<noteq> [] \<and> list_all is_digit ds \<and> unitMultiplier u = Some m \<and> s = ds @ u \<and>
          int (decimalValue ds) * m \<le> maxInt \<longrightarrow>
            emitsWorkMem av db w cp c (Itoa (int (decimalValue ds) * m))) \<and>
         (ds \<noteq> [] \<and> list_all is_digit ds \<and> unitMultiplier u = Some m \<and> s = ds @ u \<and>
          int (decimalValue ds) \<le> maxInt \<longrightarrow>
            emitsWorkMem av db w cp c (Itoa (wrapInt (int (decimalValue ds) * m)))) \<and>
         (s = ''80MB'' \<longrightarrow> emitsWorkMem av db w cp c ''83886080'') \<and>
         (s = ''64kB'' \<longrightarrow> emitsWorkMem av db w cp c ''65536'') \<and>
         (s = ''4GB'' \<longrightarrow> emitsWorkMem av db w cp c ''4294967296'') \<and>
         work_mem_batch v = \<lparr>WorkloadType = POSTGRES, Metrics = [''work_mem'' \<mapsto> v]\<rparr>"
proof (intro conjI impI)
  assume "ds \<noteq> [] \<and> list_all is_digit ds \<and> unitMultiplier u = Some m \<and> s = ds @ u \<and>
          int (decimalValue ds) * m \<le> maxInt"
  then have "parseWorkMem s = Inr (int (decimalValue ds) * m)"
    by (simp add: parseWorkMem_digits_unit)
  then show "emitsWorkMem av db w cp c (Itoa (int (decimalValue ds) * m))"
    by (rule CollectMetricsOnce_emits [where db = db, OF row])
next
  assume "ds \<noteq> [] \<and> list_all is_digit ds \<and> unitMultiplier u = Some m \<and> s = ds @ u \<and>
          int (decimalValue ds) \<le> maxInt"
  then have "parseWorkMem s = Inr (wrapInt (int (decimalValue ds) * m))"
    by (simp add: parseWorkMem_digits_unit_int)
  then show "emitsWorkMem av db w cp c (Itoa (wrapInt (int (decimalValue ds) * m)))"
    by (rule CollectMetricsOnce_emits [where db = db, OF row])
next
  assume "s = ''80MB''"
  then have "parseWorkMem s = Inr 83886080" by (simp add: parseWorkMem_examples)
  from CollectMetricsOnce_emits [where db = db, OF row this, of av w cp c]
  show "emitsWorkMem av db w cp c ''83886080''" by (simp add: Itoa_examples)
next
  assume "s = ''64kB''"
  then have "parseWorkMem s = Inr 65536" by (simp add: parseWorkMem_examples)
  from CollectMetricsOnce_emits [where db = db, OF row this, of av w cp c]
  show "emitsWorkMem av db w cp c ''65536''" by (simp add: Itoa_examples)
next
  assume "s = ''4GB''"
  then have "parseWorkMem s = Inr 4294967296" by (simp add: parseWorkMem_examples)
  from CollectMetricsOnce_emits [where db = db, OF row this, of av w cp c]
  show "emitsWorkMem av db w cp c ''4294967296''" by (simp add: Itoa_examples)
next
  show "work_mem_batch v = \<lparr>WorkloadType = POSTGRES, Metrics = [''work_mem'' \<mapsto> v]\<rparr>"
    by (simp add: work_mem_batch_def workMemKey_def)
qed

text \<open>
  The witness is the row \<^verbatim>\<open>80MB\<close> of \<^verbatim>\<open>TestCollectMetricsOnce\<close>, shipped through a
  client that records its calls: once with the answer 201 and once with the answer of the
  case \<^verbatim>\<open>WLMClientError\<close>, where the same request is handed over and the error comes
  back.
\<close>

theorem C5_work_mem_normalization_witness:
  "pg_QueryContext \<lparr>workMemRows = Some (fakeRows 1 ''80MB'' False), workMemErr = None\<rparr>
       ''SHOW work_mem'' = (Some [Inr ''80MB''], None) \<and>
   ''80'' \<noteq> [] \<and> list_all is_digit ''80'' \<and> unitMultiplier ''MB'' = Some (1024 * 1024) \<and>
   int (decimalValue ''80'') \<le> maxInt \<and>
   int (decimalValue ''80'') * (1024 * 1024) \<le> maxInt \<and>
   Itoa (int (decimalValue ''80'') * (1024 * 1024)) = ''83886080'' \<and>
   CollectMetricsOnce ''1.0''
       \<lparr>pg_db = pg_QueryContext
                  \<lparr>workMemRows = Some (fakeRows 1 ''80MB'' False), workMemErr = None\<rparr>,
        pg_WLMClient = recording scripted, pg_CloudProps = example_cloud\<rparr>
       ([(Some \<lparr>HTTPStatusCode = 201\<rparr>, None)], [])
     = (Inr (work_mem_batch ''83886080''),
        ([], [(''test-project'', ''us-central1'',
               createWriteInsightRequest ''1.0'' (work_mem_batch ''83886080'') example_cloud)]),
        []) \<and>
   CollectMetricsOnce ''1.0''
       \<lparr>pg_db = pg_QueryContext
                  \<lparr>workMemRows = Some (fakeRows 1 ''80MB'' False), workMemErr = None\<rparr>,
        pg_WLMClient = recording scripted, pg_CloudProps = example_cloud\<rparr>
       ([(Some \<lparr>HTTPStatusCode = 400\<rparr>, Some (Error ''test-error''))], [])
     = (Inl (Error ''test-error''),
        ([], [(''test-project'', ''us-central1'',
               createWriteInsightRequest ''1.0'' (work_mem_batch ''83886080'') example_cloud)]),
        [DataWarehouseWriteInsightFailure])"
proof -
  let ?db = "pg_QueryContext \<lparr>workMemRows = Some (fakeRows 1 ''80MB'' False), workMemErr = None\<rparr>"
  have row: "?db ''SHOW work_mem'' = (Some [Inr ''80MB''], None)"
    by (simp add: pg_QueryContext_def fakeRows_def)
  have num: "decimalValue ''80'' = 80"
    by (simp add: decimalValue_def digit_val_def)
  note t = C5_work_mem_normalization [where db = ?db and s = "''80MB''" and ds = "''80''"
             and u = "''MB''" and m = "1024 * 1024" and av = "''1.0''"
             and w = "recording scripted" and cp = example_cloud, OF row]
  from t [where c = "([(Some \<lparr>HTTPStatusCode = 201\<rparr>, None)], [])"]
  have ok: "emitsWorkMem ''1.0'' ?db (recording scripted) example_cloud
              ([(Some \<lparr>HTTPStatusCode = 201\<rparr>, None)], []) ''83886080''"
    by blast
  from t [where c = "([(Some \<lparr>HTTPStatusCode = 400\<rparr>, Some (Error ''test-error''))], [])"]
  have err: "emitsWorkMem ''1.0'' ?db (recording scripted) example_cloud
              ([(Some \<lparr>HTTPStatusCode = 400\<rparr>, Some (Error ''test-error''))], []) ''83886080''"
    by blast
  from ok err row show ?thesis
    by (simp add: emitsWorkMem_def recording_def scripted_def example_cloud_def
        is_digit_simps unitMultiplier_def num maxInt_def Itoa_examples)
qed

text \<open>The six cases of \<^verbatim>\<open>TestCollectMetricsOnce\<close>.\<close>

lemma TestCollectMetricsOnce_cases:
  "fst (CollectMetricsOnce av
          \<lparr>pg_db = pg_QueryContext
                     \<lparr>workMemRows = Some (fakeRows 1 ''80MB'' False), workMemErr = None\<rparr>,
           pg_WLMClient = scripted, pg_CloudProps = cp\<rparr>
          [(Some \<lparr>HTTPStatusCode = 201\<rparr>, None)])
     = Inr (work_mem_batch ''83886080'')"
  "fst (CollectMetricsOnce av
          \<lparr>pg_db = pg_QueryContext
                     \<lparr>workMemRows = Some (fakeRows 1 ''64kB'' False), workMemErr = None\<rparr>,
           pg_WLMClient = scripted, pg_CloudProps = cp\<rparr>
          [(Some \<lparr>HTTPStatusCode = 201\<rparr>, None)])
     = Inr (work_mem_batch ''65536'')"
  "fst (CollectMetricsOnce av
          \<lparr>pg_db = pg_QueryContext
                     \<lparr>workMemRows = Some (fakeRows 1 ''4GB'' False), workMemErr = None\<rparr>,
           pg_WLMClient = scripted, pg_CloudProps = cp\<rparr>
          [(Some \<lparr>HTTPStatusCode = 201\<rparr>, None)])
     = Inr (work_mem_batch ''4294967296'')"
  "fst (CollectMetricsOnce av
          \<lparr>pg_db = pg_QueryContext
                     \<lparr>workMemRows = None, workMemErr = Some (Error ''test-error'')\<rparr>,
           pg_WLMClient = scripted, pg_CloudProps = cp\<rparr>
          [(Some \<lparr>HTTPStatusCode = 201\<rparr>, None)])
     = Inl (Error ''test-error'')"
  "fst (CollectMetricsOnce av
          \<lparr>pg_db = pg_QueryContext
                     \<lparr>workMemRows = Some (fakeRows 1 ''64MB'' False), workMemErr = None\<rparr>,
           pg_WLMClient = scripted, pg_CloudProps = cp\<rparr>
          [(Some \<lparr>HTTPStatusCode = 400\<rparr>, Some (Error ''test-error''))])
     = Inl (Error ''test-error'')"
  "fst (CollectMetricsOnce av
          \<lparr>pg_db = pg_QueryContext
                     \<lparr>workMemRows = Some (fakeRows 1 ''64MB'' False), workMemErr = None\<rparr>,
           pg_WLMClient = scripted, pg_CloudProps = cp\<rparr>
          [(None, None)])
     = Inr (work_mem_batch ''67108864'')"
  by (simp_all add: CollectMetricsOnce_def SendDataInsight_def getWorkMem_def
      pg_QueryContext_def fakeRows_def scripted_def parseWorkMem_examples Itoa_examples
      work_mem_batch_def Let_def)

subsection \<open>Shipping: a nil response without an error\<close>

lemma SendDataInsight_recording:
  assumes "w c (ProjectId cp) (Region cp) (createWriteInsightRequest av wm cp) = ((res, err), c')"
  shows "SendDataInsight av \<lparr>WLMetrics = wm, CloudProps = cp, WLMService = recording w\<rparr> (c, calls)
           = ((case err of None \<Rightarrow> res | Some e \<Rightarrow> None, err),
              (c', calls @ [(ProjectId cp, Region cp, createWriteInsightRequest av wm cp)]),
              (case err of None \<Rightarrow> [] | Some e \<Rightarrow> [DataWarehouseWriteInsightFailure]))"
  using assms by (simp add: SendDataInsight_def recording_def split: option.splits)

text \<open>
  C10: when the client answers a shipment with a nil response and a nil error,
  \<^verbatim>\<open>SendDataInsight\<close> returns that nil response and no error, the client has been called
  exactly once (the call record grows by the one request, so nothing is retried) and no
  failure is reported to the usage metrics; and \<^verbatim>\<open>CollectMetricsOnce\<close> (modelled from the
  spec), shipping its batch through that client, returns the batch and no error.
\<close>

theorem C10_nil_response_is_success:
  assumes nil: "w c (ProjectId cp) (Region cp) (createWriteInsightRequest av wm cp)
                  = ((None, None), c')"
  shows "SendDataInsight av \<lparr>WLMetrics = wm, CloudProps = cp, WLMService = recording w\<rparr>
             (c, calls)
           = ((None, None),
              (c', calls @ [(ProjectId cp, Region cp, createWriteInsightRequest av wm cp)]),
              []) \<and>
         (getWorkMem db = Inr k \<and> wm = work_mem_batch (Itoa k) \<longrightarrow>
            CollectMetricsOnce av
                \<lparr>pg_db = db, pg_WLMClient = recording w, pg_CloudProps = cp\<rparr> (c, calls)
              = (Inr wm,
                 (c', calls @ [(ProjectId cp, Region cp, createWriteInsightRequest av wm cp)]),
                 []))"
proof (intro conjI impI)
  show s: "SendDataInsight av \<lparr>WLMetrics = wm, CloudProps = cp, WLMService = recording w\<rparr>
             (c, calls)
           = ((None, None),
              (c', calls @ [(ProjectId cp, Region cp, createWriteInsightRequest av wm cp)]),
              [])"
    using SendDataInsight_recording [of w c cp av wm None None c' calls] nil by simp
  assume "getWorkMem db = Inr k \<and> wm = work_mem_batch (Itoa k)"
  then show "CollectMetricsOnce av
                \<lparr>pg_db = db, pg_WLMClient = recording w, pg_CloudProps = cp\<rparr> (c, calls)
              = (Inr wm,
                 (c', calls @ [(ProjectId cp, Region cp, createWriteInsightRequest av wm cp)]),
                 [])"
    using s by (simp add: CollectMetricsOnce_def work_mem_batch_def Let_def)
qed

text \<open>
  The witness is the case \<^verbatim>\<open>NilWriteInsightResponse\<close> of \<^verbatim>\<open>TestCollectMetricsOnce\<close>:
  one row \<^verbatim>\<open>64MB\<close> and a client scripted to answer \<^verbatim>\<open>(nil, nil)\<close>.
\<close>

theorem C10_nil_response_is_success_witness:
  "scripted [(None, None)] (ProjectId example_cloud) (Region example_cloud)
      (createWriteInsightRequest ''1.0'' (work_mem_batch ''67108864'') example_cloud)
     = ((None, None), []) \<and>
   getWorkMem (pg_QueryContext
                 \<lparr>workMemRows = Some (fakeRows 1 ''64MB'' False), workMemErr = None\<rparr>)
     = Inr 67108864 \<and>
   SendDataInsight ''1.0''
       \<lparr>WLMetrics = work_mem_batch ''67108864'', CloudProps = example_cloud,
        WLMService = recording scripted\<rparr> ([(None, None)], [])
     = ((None, None),
        ([], [(''test-project'', ''us-central1'',
               createWriteInsightRequest ''1.0'' (work_mem_batch ''67108864'') example_cloud)]),
        []) \<and>
   CollectMetricsOnce ''1.0''
       \<lparr>pg_db = pg_QueryContext
                  \<lparr>workMemRows = Some (fakeRows 1 ''64MB'' False), workMemErr = None\<rparr>,
        pg_WLMClient = recording scripted, pg_CloudProps = example_cloud\<rparr> ([(None, None)], [])
     = (Inr (work_mem_batch ''67108864''),
        ([], [(''test-project'', ''us-central1'',
               createWriteInsightRequest ''1.0'' (work_mem_batch ''67108864'') example_cloud)]),
        [])"
proof -
  let ?db = "pg_QueryContext \<lparr>workMemRows = Some (fakeRows 1 ''64MB'' False), workMemErr = None\<rparr>"
  let ?wm = "work_mem_batch ''67108864''"
  have nil: "scripted [(None, None)] (ProjectId example_cloud) (Region example_cloud)
               (createWriteInsightRequest ''1.0'' ?wm example_cloud) = ((None, None), [])"
    by (simp add: scripted_def)
  have g: "getWorkMem ?db = Inr 67108864"
    by (simp add: getWorkMem_def pg_QueryContext_def fakeRows_def parseWorkMem_examples)
  from C10_nil_response_is_success
         [of scripted "[(None, None)]" example_cloud "''1.0''" ?wm "[]" "[]" ?db 67108864,
          OF nil]
  show ?thesis
    using nil g by (simp add: Itoa_examples example_cloud_def)
qed

subsection \<open>MySQL: role detection\<close>

lemma returnsRow_iff: "returnsRow r \<longleftrightarrow> (\<exists>row rows. r = (Some (row # rows), None))"
  by (auto simp: returnsRow_def split: prod.splits option.splits list.splits)

lemma roles_differ: "sourceRole \<noteq> replicaRole"
  by (simp add: sourceRole_def replicaRole_def)

text \<open>
  C6 (\<^verbatim>\<open>currentRole\<close> is modelled from the spec): the role is replica if and only if
  \<^verbatim>\<open>SHOW REPLICA STATUS\<close> returns at least one row, or that query fails (an error, or
  no row set) and \<^verbatim>\<open>SHOW SLAVE STATUS\<close> returns at least one row; in every other case
  the role is source, in particular when both queries return errors.
\<close>

theorem C6_current_role:
  "(currentRole db = replicaRole \<longleftrightarrow>
      (\<exists>row rows. db ''SHOW REPLICA STATUS'' = (Some (row # rows), None)) \<or>
      ((snd (db ''SHOW REPLICA STATUS'') \<noteq> None \<or> fst (db ''SHOW REPLICA STATUS'') = None) \<and>
       (\<exists>row rows. db ''SHOW SLAVE STATUS'' = (Some (row # rows), None)))) \<and>
   (currentRole db \<noteq> replicaRole \<longrightarrow> currentRole db = sourceRole) \<and>
   (snd (db ''SHOW REPLICA STATUS'') \<noteq> None \<and> snd (db ''SHOW SLAVE STATUS'') \<noteq> None
      \<longrightarrow> currentRole db = sourceRole)"
  by (cases "db ''SHOW REPLICA STATUS''"; cases "db ''SHOW SLAVE STATUS''")
     (auto simp: currentRole_def Let_def queryFailed_def returnsRow_iff roles_differ)

text \<open>
  The witness runs three of the cases of \<^verbatim>\<open>TestGetCurrentRole\<close>: a row from the first
  query, a row from the fallback after the first query gave nothing, and errors from
  both.
\<close>

theorem C6_current_role_witness:
  "my_QueryContext ''Q'' (emptyDB\<lparr>replicaRows := Some (fakeRows 1 ''teststring1'' False)\<rparr>)
       ''SHOW REPLICA STATUS'' = (Some [Inr ''teststring1''], None) \<and>
   currentRole
       (my_QueryContext ''Q'' (emptyDB\<lparr>replicaRows := Some (fakeRows 1 ''teststring1'' False)\<rparr>))
     = replicaRole \<and>
   fst (my_QueryContext ''Q'' (emptyDB\<lparr>slaveRows := Some (fakeRows 1 ''teststring1'' False)\<rparr>)
          ''SHOW REPLICA STATUS'') = None \<and>
   currentRole
       (my_QueryContext ''Q'' (emptyDB\<lparr>slaveRows := Some (fakeRows 1 ''teststring1'' False)\<rparr>))
     = replicaRole \<and>
   currentRole
       (my_QueryContext ''Q'' (emptyDB\<lparr>replicaErr := Some (Error ''test-error''),
                                       slaveErr := Some (Error ''test-error'')\<rparr>))
     = sourceRole"
  using
    C6_current_role
      [of "my_QueryContext ''Q'' (emptyDB\<lparr>replicaRows := Some (fakeRows 1 ''teststring1'' False)\<rparr>)"]
    C6_current_role
      [of "my_QueryContext ''Q'' (emptyDB\<lparr>slaveRows := Some (fakeRows 1 ''teststring1'' False)\<rparr>)"]
    C6_current_role
      [of "my_QueryContext ''Q'' (emptyDB\<lparr>replicaErr := Some (Error ''test-error''),
                                          slaveErr := Some (Error ''test-error'')\<rparr>)"]
  by (simp add: my_QueryContext_def emptyDB_def fakeRows_def)

text \<open>The five cases of \<^verbatim>\<open>TestGetCurrentRole\<close>, run on the model.\<close>

lemma TestGetCurrentRole_cases:
  "currentRole (my_QueryContext q (emptyDB\<lparr>replicaRows := Some (fakeRows 1 ''teststring1'' False)\<rparr>))
     = replicaRole"
  "currentRole (my_QueryContext q (emptyDB\<lparr>slaveRows := Some (fakeRows 1 ''teststring1'' False)\<rparr>))
     = replicaRole"
  "currentRole (my_QueryContext q (emptyDB\<lparr>replicaErr := Some (Error ''test-error'')\<rparr>))
     = sourceRole"
  "currentRole (my_QueryContext q (emptyDB\<lparr>slaveErr := Some (Error ''test-error'')\<rparr>))
     = sourceRole"
  "currentRole (my_QueryContext q emptyDB) = sourceRole"
  by (simp_all add: currentRole_def queryFailed_def returnsRow_def my_QueryContext_def
      emptyDB_def fakeRows_def)

subsection \<open>MySQL: replication zones\<close>


lemma zonesLoop_distinct:
  "distinct zones \<Longrightarrow> distinct (zonesLoop net rows zones)"
  by (induction rows arbitrary: zones) (auto split: sum.splits option.splits)

text \<open>No zone is emitted twice.\<close>

lemma replicationZones_distinct: "distinct (replicationZones q db role net)"
  by (auto simp: replicationZones_def zonesLoop_distinct split: prod.splits option.splits)



lemma secondComponent_examples:
  "secondComponent ''host.us-central1-a.c.proj.internal.'' = Some ''us-central1-a''"
  "secondComponent ''testname.test-zone.c.fake-project.internal.'' = Some ''test-zone''"
  "secondComponent ''testname.test-zone2.c.fake-project.internal.'' = Some ''test-zone2''"
  "secondComponent ''localhost'' = None"
  by (simp_all add: secondComponent_def)



text \<open>
  The cases of \<^verbatim>\<open>TestReplicationZones\<close>, run on the model (\<^verbatim>\<open>NoWorkers\<close> and
  \<^verbatim>\<open>EmptyResult\<close> are the same input).  The library's
  \<^verbatim>\<open>ParseIP\<close> rejects the two strings of the cases \<^verbatim>\<open>InvalidIP\<close> and
  \<^verbatim>\<open>HappyPathHostname\<close>.
\<close>

lemma TestReplicationZones_cases:
  assumes "parseIP ''1.241234.3.4'' = None"
    and "parseIP ''testname.test-zone.c.fake-project.internal.'' = None"
    and "q \<noteq> ''SHOW REPLICA STATUS''" "q \<noteq> ''SHOW SLAVE STATUS''"
  shows
    "replicationZones q
       (my_QueryContext q (emptyDB\<lparr>replicationZonesRows := Some (fakeRows 1 ''1.2.3.4'' False)\<rparr>))
       sourceRole
       (mockNetInterface parseIP
          (emptyNet\<lparr>lookupAddrValue :=
             [''1.2.3.4'' \<mapsto> [''testname.test-zone.c.fake-project.internal.'']]\<rparr>))
     = [''test-zone'']"
    "replicationZones q
       (my_QueryContext q (emptyDB\<lparr>replicationZonesRows := Some (fakeRows 1 ''5.6.7.8'' False)\<rparr>))
       sourceRole
       (mockNetInterface parseIP
          (emptyNet\<lparr>lookupAddrValue :=
             [''5.6.7.8'' \<mapsto> [''testname.test-zone2.c.fake-project.internal.'']]\<rparr>))
     = [''test-zone2'']"
    "replicationZones q (my_QueryContext q emptyDB) sourceRole (mockNetInterface parseIP emptyNet)
     = []"
    "replicationZones q
       (my_QueryContext q
          (emptyDB\<lparr>replicationZonesRows := Some (fakeRows 1 ''1.241234.3.4'' False)\<rparr>))
       sourceRole
       (mockNetInterface parseIP
          (emptyNet\<lparr>lookupHostErr := [''1.241234.3.4'' \<mapsto> Error ''test-error'']\<rparr>))
     = []"
    "replicationZones q
       (my_QueryContext q (emptyDB\<lparr>replicationZonesRows := Some (fakeRows 1 ''1.2.3.4'' False)\<rparr>))
       replicaRole (mockNetInterface parseIP emptyNet)
     = []"
    "replicationZones q
       (my_QueryContext q
          (emptyDB\<lparr>replicationZonesRows :=
             Some (fakeRows 1 ''testname.test-zone.c.fake-project.internal.'' False)\<rparr>))
       sourceRole
       (mockNetInterface parseIP
          (emptyNet\<lparr>lookupHostValue :=
             [''testname.test-zone.c.fake-project.internal.'' \<mapsto> [''valid'']]\<rparr>))
     = [''test-zone'']"
  using assms
  by (simp_all add: replicationZones_def my_QueryContext_def emptyDB_def fakeRows_def
      mockNetInterface_def emptyNet_def resolveFQDN_def secondComponent_examples
      roles_differ [symmetric])

subsection \<open>Oracle: the message handler\<close>

lemma HasAnyPrefix_ora:
  "HasAnyPrefix name oraProcessPrefixes
     \<longleftrightarrow> HasPrefix name ''ora_pmon_'' \<or> HasPrefix name ''db_pmon_''"
  by (simp add: HasAnyPrefix_def oraProcessPrefixes_def)

lemma scanProcesses_iff:
  "scanProcesses ps present \<longleftrightarrow> present \<or> list_ex namedLikeOracle ps"
  by (induction ps) (auto simp: namedLikeOracle_def HasAnyPrefix_ora split: sum.splits)

lemma check_flag:
  "isProcessPresent (checkServiceCommunication st s) \<longleftrightarrow> isProcessPresent s \<or> latches st"
proof (cases st)
  case (Pair ctxErr sel)
  show ?thesis
  proof (cases sel)
    case CtxDone
    with Pair show ?thesis by (simp add: latches_def)
  next
    case (Receive msg)
    with Pair show ?thesis
      by (cases "Origin msg")
         (simp_all add: latches_def announcesOracle_def scanProcesses_iff)
  qed
qed

lemma check_frame:
  "Config (checkServiceCommunication st s) = Config s"
  "discoveryRoutine (checkServiceCommunication st s) = discoveryRoutine s"
  "metricCollectionRoutine (checkServiceCommunication st s) = metricCollectionRoutine s"
  by (cases st; simp add: Let_def split: select_outcome.splits MessageOrigin.splits)+

lemma runHandler_simps:
  "runHandler [] s = s"
  "runHandler (st # steps) s = runHandler steps (checkServiceCommunication st s)"
  "runHandler (xs @ ys) s = runHandler ys (runHandler xs s)"
  by (simp_all add: runHandler_def)

lemma runHandler_flag:
  "isProcessPresent (runHandler steps s) \<longleftrightarrow> isProcessPresent s \<or> (\<exists>st \<in> set steps. latches st)"
  by (induction steps arbitrary: s) (auto simp: runHandler_simps check_flag)

lemma runHandler_frame:
  "Config (runHandler steps s) = Config s"
  "discoveryRoutine (runHandler steps s) = discoveryRoutine s"
  "metricCollectionRoutine (runHandler steps s) = metricCollectionRoutine s"
  by (induction steps arbitrary: s; simp add: runHandler_simps check_frame)+

lemma runHandler_latch:
  "isProcessPresent s \<Longrightarrow> isProcessPresent (runHandler steps s)"
  by (simp add: runHandler_flag)

lemma wait_unseen:
  "\<not> isProcessPresent (runHandler (concat sched) s) \<Longrightarrow>
   waitForWorkload s sched n = (runHandler (concat sched) s, n + length sched, False, [])"
proof (induction sched arbitrary: s n)
  case Nil
  then show ?case by (simp add: runHandler_simps)
next
  case (Cons steps rest)
  from Cons.prems have fin: "\<not> isProcessPresent (runHandler (concat rest) (runHandler steps s))"
    by (simp add: runHandler_simps)
  then have "\<not> isProcessPresent (runHandler steps s)"
    using runHandler_latch by blast
  with Cons.IH [OF fin] show ?case by (simp add: runHandler_simps)
qed

lemma wait_seen:
  "\<not> isProcessPresent (runHandler (concat pre) s) \<Longrightarrow>
   isProcessPresent (runHandler (concat pre @ steps) s) \<Longrightarrow>
   waitForWorkload s (pre @ steps # post) n
     = (runHandler (concat pre @ steps) s, n + length pre, True, post)"
proof (induction pre arbitrary: s n)
  case Nil
  then show ?case by simp
next
  case (Cons b pre)
  from Cons.prems(1) have mid: "\<not> isProcessPresent (runHandler (concat pre) (runHandler b s))"
    by (simp add: runHandler_simps)
  then have "\<not> isProcessPresent (runHandler b s)"
    using runHandler_latch by blast
  moreover from Cons.prems(2)
  have "isProcessPresent (runHandler (concat pre @ steps) (runHandler b s))"
    by (simp add: runHandler_simps)
  ultimately show ?case using Cons.IH [OF mid] by (simp add: runHandler_simps)
qed

lemma wait_result:
  "waitForWorkload s sched n = (s', k, p, rest) \<Longrightarrow>
     runHandler (concat rest) s' = runHandler (concat sched) s \<and>
     (p \<longleftrightarrow> sched \<noteq> [] \<and> isProcessPresent (runHandler (concat sched) s))"
proof (induction sched arbitrary: s n)
  case Nil
  then show ?case by (auto simp: runHandler_simps)
next
  case (Cons steps sched)
  show ?case
  proof (cases "isProcessPresent (runHandler steps s)")
    case True
    with Cons.prems show ?thesis
      by (auto simp: runHandler_simps runHandler_latch)
  next
    case False
    with Cons.prems have w: "waitForWorkload (runHandler steps s) sched (Suc n) = (s', k, p, rest)"
      by simp
    from Cons.IH [OF w] have
      a: "runHandler (concat rest) s' = runHandler (concat sched) (runHandler steps s)"
      and b: "p \<longleftrightarrow> sched \<noteq> [] \<and> isProcessPresent (runHandler (concat sched) (runHandler steps s))"
      by blast+
    from b False have "p \<longleftrightarrow> isProcessPresent (runHandler (concat sched) (runHandler steps s))"
      by (cases sched) (auto simp: runHandler_simps)
    then show ?thesis using a by (auto simp: runHandler_simps)
  qed
qed

lemma wait_frame:
  assumes "waitForWorkload s sched n = (s', k, p, rest)"
  shows "Config s' = Config s" "discoveryRoutine s' = discoveryRoutine s"
    "metricCollectionRoutine s' = metricCollectionRoutine s"
proof -
  from wait_result [OF assms]
  have e: "runHandler (concat rest) s' = runHandler (concat sched) s" by blast
  have "Config s' = Config (runHandler (concat rest) s')" by (simp add: runHandler_frame)
  then show "Config s' = Config s" by (simp add: e runHandler_frame)
  have "discoveryRoutine s' = discoveryRoutine (runHandler (concat rest) s')"
    by (simp add: runHandler_frame)
  then show "discoveryRoutine s' = discoveryRoutine s" by (simp add: e runHandler_frame)
  have "metricCollectionRoutine s' = metricCollectionRoutine (runHandler (concat rest) s')"
    by (simp add: runHandler_frame)
  then show "metricCollectionRoutine s' = metricCollectionRoutine s"
    by (simp add: e runHandler_frame)
qed

lemma startOnPlatform_linux:
  "startOnPlatform ''linux'' oc s n lg =
     \<lparr>r_service = s\<lparr>discoveryRoutine :=
                      (if discoveryEnabled oc
                       then Some \<lparr>Routine = runDiscovery,
                                  rr_ErrorCode = OracleDiscoverDatabaseFailure,
                                  ExpectedMinDuration = 20\<rparr>
                       else discoveryRoutine s),
                    metricCollectionRoutine :=
                      (if metricsEnabled oc
                       then Some \<lparr>Routine = runMetricCollection,
                                  rr_ErrorCode = OracleMetricCollectionFailure,
                                  ExpectedMinDuration = 20\<rparr>
                       else metricCollectionRoutine s)\<rparr>,
      r_status = Serving, r_started = enabledRoutines oc, r_sleeps = n, r_log = lg\<rparr>"
  by (simp add: startOnPlatform_def enabledRoutines_def)

lemma startOnPlatform_other:
  "goos \<noteq> ''linux'' \<Longrightarrow>
   startOnPlatform goos oc s n lg =
     \<lparr>r_service = s, r_status = Returned, r_started = [], r_sleeps = n,
      r_log = lg @ [LogError ''Oracle service is only supported on Linux'']\<rparr>"
  by (simp add: startOnPlatform_def)

lemma startOnPlatform_facts:
  "r_sleeps (startOnPlatform goos oc s n lg) = n"
  "r_status (startOnPlatform goos oc s n lg) \<noteq> Waiting"
  by (cases "goos = ''linux''"; simp add: startOnPlatform_linux startOnPlatform_other)+


lemma example_latches:
  "latches (False, Receive (example_message Discovery [''bash'', ''ora_pmon_ORCL'']))"
  "\<not> latches (False, Receive (example_message Discovery [''bash'']))"
  "\<not> latches (False, Receive (example_message (OtherOrigin 7) [''ora_pmon_ORCL'']))"
  "\<not> latches (True, Receive (example_message Discovery [''ora_pmon_ORCL'']))"
  by (simp_all add: latches_def announcesOracle_def namedLikeOracle_def example_message_def
      example_process_def HasPrefix_def)


text \<open>
  C9: over every sequence of handler steps, a set \<open>isProcessPresent\<close> stays set; after
  the steps the flag is set exactly when it was set before or one of the steps latched
  it; a single received message sets it exactly when it was set before or the message
  is a discovery message listing a process whose name starts with \<^verbatim>\<open>ora_pmon_\<close> or
  \<^verbatim>\<open>db_pmon_\<close>; and a message of an unknown origin leaves the whole service, the flag
  and the process snapshot included, as it was.
\<close>

theorem C9_latch_invariant:
  "(isProcessPresent s \<longrightarrow> isProcessPresent (runHandler steps s)) \<and>
   (isProcessPresent (runHandler steps s)
      \<longleftrightarrow> isProcessPresent s \<or> (\<exists>st \<in> set steps. latches st)) \<and>
   (isProcessPresent (checkServiceCommunication (False, Receive msg) s)
      \<longleftrightarrow> isProcessPresent s \<or> announcesOracle msg) \<and>
   (Origin msg = OtherOrigin n \<longrightarrow>
      checkServiceCommunication (ctxErr, Receive msg) s = s)"
proof (intro conjI impI)
  assume "isProcessPresent s"
  then show "isProcessPresent (runHandler steps s)" by (rule runHandler_latch)
next
  show "isProcessPresent (runHandler steps s)
          \<longleftrightarrow> isProcessPresent s \<or> (\<exists>st \<in> set steps. latches st)"
    by (rule runHandler_flag)
next
  show "isProcessPresent (checkServiceCommunication (False, Receive msg) s)
          \<longleftrightarrow> isProcessPresent s \<or> announcesOracle msg"
    by (simp only: check_flag) (simp add: latches_def)
next
  assume "Origin msg = OtherOrigin n"
  then show "checkServiceCommunication (ctxErr, Receive msg) s = s" by simp
qed


text \<open>
  The witness: a discovery message with \<^verbatim>\<open>ora_pmon_ORCL\<close> sets the flag, a later
  discovery message without Oracle processes leaves it set, and a message of origin 7
  changes nothing.
\<close>

theorem C9_latch_invariant_witness:
  "isProcessPresent
     (runHandler [(False, Receive (example_message Discovery [''bash'', ''ora_pmon_ORCL'']))]
        (example_service None)) \<and>
   isProcessPresent
     (runHandler [(False, Receive (example_message Discovery [''bash''])), (False, CtxDone)]
        (runHandler [(False, Receive (example_message Discovery [''bash'', ''ora_pmon_ORCL'']))]
           (example_service None))) \<and>
   Origin (example_message (OtherOrigin 7) [''ora_pmon_ORCL'']) = OtherOrigin 7 \<and>
   checkServiceCommunication (False, Receive (example_message (OtherOrigin 7) [''ora_pmon_ORCL'']))
       (example_service None)
     = example_service None"
proof -
  let ?s1 = "runHandler [(False, Receive (example_message Discovery [''bash'', ''ora_pmon_ORCL'']))]
               (example_service None)"
  have o: "Origin (example_message (OtherOrigin 7) [''ora_pmon_ORCL'']) = OtherOrigin 7"
    by (simp add: example_message_def)
  have p: "isProcessPresent ?s1"
    by (simp add: runHandler_flag example_latches)
  from C9_latch_invariant
         [of ?s1 "[(False, Receive (example_message Discovery [''bash''])), (False, CtxDone)]"
             "example_message (OtherOrigin 7) [''ora_pmon_ORCL'']" 7 False]
       C9_latch_invariant
         [of "example_service None" "[]"
             "example_message (OtherOrigin 7) [''ora_pmon_ORCL'']" 7 False]
       o p
  show ?thesis by simp
qed



subsection \<open>Oracle: Start\<close>

lemma Start_enabled:
  assumes "cfg_OracleConfiguration (Config s) = Some oc" "oc_Enabled oc = Some True"
  shows "Start goos sched s =
           (startOnPlatform goos oc s 0 [])
             \<lparr>r_service := runHandler (concat sched) (r_service (startOnPlatform goos oc s 0 []))\<rparr>"
  using assms by (simp add: Start_def Let_def)

lemma Start_disabled:
  assumes "cfg_OracleConfiguration (Config s) = Some oc" "oc_Enabled oc = Some False"
  shows "Start goos sched s =
           \<lparr>r_service = runHandler (concat sched) s, r_status = Returned,
            r_started = [], r_sleeps = 0,
            r_log = [LogInfo ''Oracle service is disabled'']\<rparr>"
  using assms by (simp add: Start_def)

lemma Start_unset_waiting:
  assumes "cfg_OracleConfiguration (Config s) = Some oc" "oc_Enabled oc = None"
    and "waitForWorkload s sched 0 = (s', k, False, rest)"
  shows "Start goos sched s =
           \<lparr>r_service = s', r_status = Waiting, r_started = [], r_sleeps = k,
            r_log = [LogInfo ''Oracle service enabled field is not set, will check for workload presence to determine if service should be enabled.'']\<rparr>"
  using assms by (simp add: Start_def)

lemma Start_unset_present:
  assumes "cfg_OracleConfiguration (Config s) = Some oc" "oc_Enabled oc = None"
    and "waitForWorkload s sched 0 = (s', k, True, rest)"
  shows "Start goos sched s =
           (startOnPlatform goos oc s' k
              [LogInfo ''Oracle service enabled field is not set, will check for workload presence to determine if service should be enabled.'',
               LogInfo ''Oracle workload is present. Starting service.''])
             \<lparr>r_service := runHandler (concat rest)
                (r_service (startOnPlatform goos oc s' k
              [LogInfo ''Oracle service enabled field is not set, will check for workload presence to determine if service should be enabled.'',
               LogInfo ''Oracle workload is present. Starting service.'']))\<rparr>"
  using assms by (simp add: Start_def Let_def)


text \<open>
  C2: with the enabled field true Start never sleeps or waits, whatever the handler
  does, and goes on to the platform check and the start of the routines (on Linux it
  ends serving, with the routines its configuration enables started).  With the field
  unset, as long as no check of the waiting loop has seen \<open>isProcessPresent\<close> set, Start
  is still waiting, has started nothing and has slept once per check; once a check sees
  the flag, after exactly that many sleeps, Start goes on as in the first case.  With the
  field false Start returns with no routine started and the routine fields untouched.
\<close>

theorem C2_enabled_gate:
  assumes cfg: "cfg_OracleConfiguration (Config s) = Some oc"
  shows
    "(oc_Enabled oc = Some True \<longrightarrow>
        r_sleeps (Start goos sched s) = 0 \<and>
        r_status (Start goos sched s) \<noteq> Waiting \<and>
        (goos = ''linux'' \<longrightarrow>
           r_status (Start goos sched s) = Serving \<and>
           r_started (Start goos sched s) = enabledRoutines oc)) \<and>
     (oc_Enabled oc = None \<and> \<not> isProcessPresent (runHandler (concat sched) s) \<longrightarrow>
        r_status (Start goos sched s) = Waiting \<and>
        r_started (Start goos sched s) = [] \<and>
        r_sleeps (Start goos sched s) = length sched \<and>
        discoveryRoutine (r_service (Start goos sched s)) = discoveryRoutine s \<and>
        metricCollectionRoutine (r_service (Start goos sched s)) = metricCollectionRoutine s) \<and>
     (oc_Enabled oc = None \<and> \<not> isProcessPresent (runHandler (concat pre) s) \<and>
      isProcessPresent (runHandler (concat pre @ steps) s) \<longrightarrow>
        r_sleeps (Start goos (pre @ steps # post) s) = length pre \<and>
        r_status (Start goos (pre @ steps # post) s) \<noteq> Waiting \<and>
        (goos = ''linux'' \<longrightarrow>
           r_status (Start goos (pre @ steps # post) s) = Serving \<and>
           r_started (Start goos (pre @ steps # post) s) = enabledRoutines oc)) \<and>
     (oc_Enabled oc = Some False \<longrightarrow>
        r_status (Start goos sched s) = Returned \<and>
        r_started (Start goos sched s) = [] \<and>
        discoveryRoutine (r_service (Start goos sched s)) = discoveryRoutine s \<and>
        metricCollectionRoutine (r_service (Start goos sched s)) = metricCollectionRoutine s)"
proof (intro conjI impI)
  assume e: "oc_Enabled oc = Some True"
  show "r_sleeps (Start goos sched s) = 0"
    by (simp add: Start_enabled [OF cfg e] startOnPlatform_facts)
  show "r_status (Start goos sched s) \<noteq> Waiting"
    by (simp add: Start_enabled [OF cfg e] startOnPlatform_facts)
  assume "goos = ''linux''"
  then show "r_status (Start goos sched s) = Serving"
    and "r_started (Start goos sched s) = enabledRoutines oc"
    by (simp_all add: Start_enabled [OF cfg e] startOnPlatform_linux)
next
  assume a: "oc_Enabled oc = None \<and> \<not> isProcessPresent (runHandler (concat sched) s)"
  then have w: "waitForWorkload s sched 0
                  = (runHandler (concat sched) s, 0 + length sched, False, [])"
    by (simp add: wait_unseen)
  from a have e: "oc_Enabled oc = None" by simp
  note r = Start_unset_waiting [OF cfg e w]
  show "r_status (Start goos sched s) = Waiting" by (simp add: r)
  show "r_started (Start goos sched s) = []" by (simp add: r)
  show "r_sleeps (Start goos sched s) = length sched" by (simp add: r)
  show "discoveryRoutine (r_service (Start goos sched s)) = discoveryRoutine s"
    by (simp add: r runHandler_frame)
  show "metricCollectionRoutine (r_service (Start goos sched s)) = metricCollectionRoutine s"
    by (simp add: r runHandler_frame)
next
  assume a: "oc_Enabled oc = None \<and> \<not> isProcessPresent (runHandler (concat pre) s) \<and>
             isProcessPresent (runHandler (concat pre @ steps) s)"
  then have w: "waitForWorkload s (pre @ steps # post) 0
                  = (runHandler (concat pre @ steps) s, 0 + length pre, True, post)"
    by (simp add: wait_seen)
  from a have e: "oc_Enabled oc = None" by simp
  note r = Start_unset_present [OF cfg e w]
  show "r_sleeps (Start goos (pre @ steps # post) s) = length pre"
    by (simp add: r startOnPlatform_facts)
  show "r_status (Start goos (pre @ steps # post) s) \<noteq> Waiting"
    by (simp add: r startOnPlatform_facts)
  assume "goos = ''linux''"
  then show "r_status (Start goos (pre @ steps # post) s) = Serving"
    and "r_started (Start goos (pre @ steps # post) s) = enabledRoutines oc"
    by (simp_all add: r startOnPlatform_linux)
next
  assume e: "oc_Enabled oc = Some False"
  note r = Start_disabled [OF cfg e]
  show "r_status (Start goos sched s) = Returned" by (simp add: r)
  show "r_started (Start goos sched s) = []" by (simp add: r)
  show "discoveryRoutine (r_service (Start goos sched s)) = discoveryRoutine s"
    by (simp add: r runHandler_frame)
  show "metricCollectionRoutine (r_service (Start goos sched s)) = metricCollectionRoutine s"
    by (simp add: r runHandler_frame)
qed


text \<open>
  The witness: enabled on Linux; unset with a schedule that never shows an Oracle
  process; unset with a schedule whose second check sees \<^verbatim>\<open>ora_pmon_ORCL\<close>; disabled.
\<close>

theorem C2_enabled_gate_witness:
  "cfg_OracleConfiguration (Config (example_service (Some True))) = Some (example_oc (Some True)) \<and>
   r_sleeps (Start ''linux'' [] (example_service (Some True))) = 0 \<and>
   r_status (Start ''linux'' [] (example_service (Some True))) = Serving \<and>
   r_started (Start ''linux'' [] (example_service (Some True)))
     = [runDiscovery, runMetricCollection] \<and>
   \<not> isProcessPresent
       (runHandler (concat [[(False, Receive (example_message Discovery [''bash'']))]])
          (example_service None)) \<and>
   r_status (Start ''linux'' [[(False, Receive (example_message Discovery [''bash'']))]]
               (example_service None)) = Waiting \<and>
   r_started (Start ''linux'' [[(False, Receive (example_message Discovery [''bash'']))]]
                (example_service None)) = [] \<and>
   r_sleeps (Start ''linux''
               ([[(False, Receive (example_message Discovery [''bash'']))]]
                @ [(False, Receive (example_message Discovery [''bash'', ''ora_pmon_ORCL'']))]
                # [[]])
               (example_service None)) = 1 \<and>
   r_status (Start ''linux''
               ([[(False, Receive (example_message Discovery [''bash'']))]]
                @ [(False, Receive (example_message Discovery [''bash'', ''ora_pmon_ORCL'']))]
                # [[]])
               (example_service None)) = Serving \<and>
   r_status (Start ''linux'' [] (example_service (Some False))) = Returned \<and>
   r_started (Start ''linux'' [] (example_service (Some False))) = []"
proof -
  let ?bash = "(False, Receive (example_message Discovery [''bash'']))"
  let ?pmon = "(False, Receive (example_message Discovery [''bash'', ''ora_pmon_ORCL'']))"
  have cfg: "cfg_OracleConfiguration (Config (example_service e)) = Some (example_oc e)" for e
    by (simp add: example_service_def)
  have en: "oc_Enabled (example_oc e) = e" for e
    by (simp add: example_oc_def)
  have routines: "enabledRoutines (example_oc e) = [runDiscovery, runMetricCollection]" for e
    by (simp add: enabledRoutines_def discoveryEnabled_def metricsEnabled_def GetEnabled_def
        example_oc_def)
  have unseen: "\<not> isProcessPresent (runHandler (concat [[?bash]]) (example_service None))"
    by (simp add: runHandler_flag example_latches example_service_def)
  have seen: "isProcessPresent (runHandler (concat [[?bash]] @ [?pmon]) (example_service None))"
    by (simp add: runHandler_flag example_latches)
  from C2_enabled_gate [OF cfg, where e1 = "Some True" and goos = "''linux''" and sched = "[]"]
       C2_enabled_gate [OF cfg, where e1 = None and goos = "''linux''" and sched = "[[?bash]]"
                          and pre = "[[?bash]]" and steps = "[?pmon]" and post = "[[]]"]
       C2_enabled_gate [OF cfg, where e1 = "Some False" and goos = "''linux''" and sched = "[]"]
       unseen seen
  show ?thesis by (simp add: cfg en routines)
qed

text \<open>
  C4: when the Oracle service passes its enabled gate (the field is true, or it is unset
  and a check of the waiting loop has seen the process flag) on a host whose operating
  system is not Linux, Start returns having started neither routine: no routine is
  started, both routine fields of the service are as before, and the last log entry is
  the error that the service is only supported on Linux.  The ticks of discovery and
  metric collection are fired by the two routines only, so none fires.
\<close>

theorem C4_platform_gate:
  assumes cfg: "cfg_OracleConfiguration (Config s) = Some oc"
    and os: "goos \<noteq> ''linux''"
    and gate: "oc_Enabled oc = Some True \<or>
               (oc_Enabled oc = None \<and> sched \<noteq> [] \<and>
                isProcessPresent (runHandler (concat sched) s))"
  shows "r_status (Start goos sched s) = Returned \<and>
         r_started (Start goos sched s) = [] \<and>
         discoveryRoutine (r_service (Start goos sched s)) = discoveryRoutine s \<and>
         metricCollectionRoutine (r_service (Start goos sched s)) = metricCollectionRoutine s \<and>
         last (r_log (Start goos sched s)) = LogError ''Oracle service is only supported on Linux''"
  using gate
proof
  assume e: "oc_Enabled oc = Some True"
  show ?thesis
    by (simp add: Start_enabled [OF cfg e] startOnPlatform_other [OF os] runHandler_frame)
next
  assume a: "oc_Enabled oc = None \<and> sched \<noteq> [] \<and> isProcessPresent (runHandler (concat sched) s)"
  obtain s' k p rest where w: "waitForWorkload s sched 0 = (s', k, p, rest)"
    by (metis prod_cases4)
  from wait_result [OF w] a have "p" by simp
  with w have w': "waitForWorkload s sched 0 = (s', k, True, rest)" by simp
  from a have e: "oc_Enabled oc = None" by simp
  show ?thesis
    by (simp add: Start_unset_present [OF cfg e w'] startOnPlatform_other [OF os]
        runHandler_frame wait_frame [OF w])
qed


text \<open>
  The witness: the service enabled on a Windows host, and the service with the field
  unset whose first check sees \<^verbatim>\<open>ora_pmon_ORCL\<close> on a Windows host.
\<close>

theorem C4_platform_gate_witness:
  "cfg_OracleConfiguration (Config (example_service (Some True))) = Some (example_oc (Some True)) \<and>
   ''windows'' \<noteq> ''linux'' \<and>
   oc_Enabled (example_oc (Some True)) = Some True \<and>
   r_status (Start ''windows'' [] (example_service (Some True))) = Returned \<and>
   r_started (Start ''windows'' [] (example_service (Some True))) = [] \<and>
   discoveryRoutine (r_service (Start ''windows'' [] (example_service (Some True)))) = None \<and>
   metricCollectionRoutine (r_service (Start ''windows'' [] (example_service (Some True)))) = None \<and>
   isProcessPresent
     (runHandler
        (concat [[(False, Receive (example_message Discovery [''bash'', ''ora_pmon_ORCL'']))]])
        (example_service None)) \<and>
   r_status (Start ''windows''
               [[(False, Receive (example_message Discovery [''bash'', ''ora_pmon_ORCL'']))]]
               (example_service None)) = Returned \<and>
   r_started (Start ''windows''
                [[(False, Receive (example_message Discovery [''bash'', ''ora_pmon_ORCL'']))]]
                (example_service None)) = []"
proof -
  let ?pmon = "(False, Receive (example_message Discovery [''bash'', ''ora_pmon_ORCL'']))"
  have cfg: "cfg_OracleConfiguration (Config (example_service e)) = Some (example_oc e)" for e
    by (simp add: example_service_def)
  have en: "oc_Enabled (example_oc e) = e" for e
    by (simp add: example_oc_def)
  have os: "''windows'' \<noteq> ''linux''" by simp
  have seen: "isProcessPresent (runHandler (concat [[?pmon]]) (example_service None))"
    by (simp add: runHandler_flag example_latches)
  have g1: "oc_Enabled (example_oc (Some True)) = Some True \<or>
            (oc_Enabled (example_oc (Some True)) = None \<and> [] \<noteq> [] \<and>
             isProcessPresent (runHandler (concat []) (example_service (Some True))))"
    by (simp add: en)
  have g2: "oc_Enabled (example_oc None) = Some True \<or>
            (oc_Enabled (example_oc None) = None \<and> [[?pmon]] \<noteq> [] \<and>
             isProcessPresent (runHandler (concat [[?pmon]]) (example_service None)))"
    using seen by (simp add: en)
  from C4_platform_gate [OF cfg os g1] C4_platform_gate [OF cfg os g2] seen
  show ?thesis by (simp add: cfg en example_service_def)
qed

subsection \<open>Discovery: channels\<close>

lemma subscriberStep_cap: "cap (subscriberStep a st c) = cap (st c)"
  by (cases a) (auto split: list.splits)

lemma subscriberStep_history:
  "delivered (subscriberStep a st c) @ buf (subscriberStep a st c) = delivered (st c) @ buf (st c)"
  by (cases a) (auto split: list.splits)

lemma subscribers_cap: "cap (fold subscriberStep as st c) = cap (st c)"
  by (induction as arbitrary: st) (simp_all add: subscriberStep_cap)

lemma subscribers_history:
  "delivered (fold subscriberStep as st c) @ buf (fold subscriberStep as st c)
     = delivered (st c) @ buf (st c)"
  by (induction as arbitrary: st) (simp_all add: subscriberStep_history)

lemma deliver_cap: "cap (deliver m ch st c) = cap (st c)"
  by (simp add: deliver_def)

lemma deliver_history:
  "delivered (deliver m ch st c) @ buf (deliver m ch st c)
     = delivered (st c) @ buf (st c) @ (if c = ch then [m] else [])"
  by (simp add: deliver_def)

lemma deliver_other: "c \<noteq> ch \<Longrightarrow> deliver m ch st c = st c"
  by (simp add: deliver_def)

lemma sendReady_buffered:
  "1 \<le> cap (st ch) \<Longrightarrow> sendReady st ch \<longleftrightarrow> \<not> bufferFull st ch"
  by (auto simp: sendReady_def bufferFull_def)

text \<open>A receiver hears of an unbuffered channel only while it is parked on it.\<close>

lemma sendReady_unbuffered:
  "cap (st ch) = 0 \<Longrightarrow> sendReady st ch \<longleftrightarrow> 0 < parked (st ch) \<and> buf (st ch) = []"
  by (simp add: sendReady_def)

subsection \<open>Discovery: the send loop\<close>

lemma fanOut_acc:
  "fanOut m chs acts st f att =
     (case fanOut m chs acts st 0 [] of (st', f', att') \<Rightarrow> (st', f + f', att @ att'))"
proof (induction chs arbitrary: acts st f att)
  case Nil
  then show ?case by simp
next
  case (Cons ch chs)
  let ?st1 = "fold subscriberStep (nextActs acts) st"
  show ?case
  proof (cases "sendReady ?st1 ch")
    case True
    then show ?thesis
      using Cons.IH [of "drop 1 acts" "deliver m ch ?st1" f "att @ [(ch, True)]"]
            Cons.IH [of "drop 1 acts" "deliver m ch ?st1" 0 "[(ch, True)]"]
      by (simp add: Let_def split: prod.splits)
  next
    case False
    then show ?thesis
      using Cons.IH [of "drop 1 acts" ?st1 "f + 1" "att @ [(ch, False)]"]
            Cons.IH [of "drop 1 acts" ?st1 1 "[(ch, False)]"]
      by (simp add: Let_def split: prod.splits)
  qed
qed

lemma fanOut_append:
  "fanOut m (xs @ ys) acts st f att =
     (case fanOut m xs acts st f att of
        (st1, f1, att1) \<Rightarrow> fanOut m ys (drop (length xs) acts) st1 f1 att1)"
  by (induction xs arbitrary: acts st f att) (simp_all add: Let_def)

lemma fanOut_Cons:
  "fanOut m (ch # chs) acts st 0 [] =
     (if sendReady (fold subscriberStep (nextActs acts) st) ch
      then (case fanOut m chs (drop 1 acts)
                   (deliver m ch (fold subscriberStep (nextActs acts) st)) 0 [] of
              (st', f, att) \<Rightarrow> (st', f, (ch, True) # att))
      else (case fanOut m chs (drop 1 acts) (fold subscriberStep (nextActs acts) st) 0 [] of
              (st', f, att) \<Rightarrow> (st', Suc f, (ch, False) # att)))"
  using fanOut_acc [of m chs "drop 1 acts"
                       "deliver m ch (fold subscriberStep (nextActs acts) st)" 0 "[(ch, True)]"]
        fanOut_acc [of m chs "drop 1 acts" "fold subscriberStep (nextActs acts) st" 1
                       "[(ch, False)]"]
  by (simp add: Let_def split: prod.splits)

declare fanOut.simps(2) [simp del]

lemma fanOut_attempts_fst:
  "fanOut m chs acts st 0 [] = (st', f, att) \<Longrightarrow> map fst att = chs"
  by (induction chs arbitrary: acts st st' f att)
     (auto simp: fanOut_Cons split: if_splits prod.splits)

lemma fanOut_tally:
  "fanOut m chs acts st 0 [] = (st', f, att) \<Longrightarrow> f = length (filter (\<lambda>a. \<not> snd a) att)"
  by (induction chs arbitrary: acts st st' f att)
     (auto simp: fanOut_Cons split: if_splits prod.splits)

lemma fanOut_attempt_at:
  assumes "fanOut m chs acts st 0 [] = (st', f, att)" "i < length chs"
  shows "att ! i = (chs ! i, sendReady (storeAtSend m chs acts st i) (chs ! i))"
proof -
  from assms(2) have split: "chs = take i chs @ chs ! i # drop (Suc i) chs"
    by (simp add: id_take_nth_drop)
  obtain st1 f1 att1 where p: "fanOut m (take i chs) acts st 0 [] = (st1, f1, att1)"
    by (metis prod_cases3)
  have l: "length att1 = i"
    using fanOut_attempts_fst [OF p] assms(2)
    by (metis length_map length_take min.absorb2 less_imp_le)
  let ?at = "fold subscriberStep (nextActs (drop i acts)) st1"
  have sb: "storeAtSend m chs acts st i = ?at" by (simp add: storeAtSend_def p)
  from assms(2) have li: "length (take i chs) = i" by simp
  have "fanOut m chs acts st 0 []
          = fanOut m (chs ! i # drop (Suc i) chs) (drop i acts) st1 f1 att1"
    using assms(2)
    by (subst split) (simp add: fanOut_append p min_def del: append_take_drop_id)
  also have "\<dots> = (case fanOut m (chs ! i # drop (Suc i) chs) (drop i acts) st1 0 [] of
                     (s2, f2, att2) \<Rightarrow> (s2, f1 + f2, att1 @ att2))"
    by (rule fanOut_acc)
  finally have "\<exists>tl2. att = att1 @ (chs ! i, sendReady ?at (chs ! i)) # tl2"
    using assms(1) by (auto simp: fanOut_Cons split: prod.splits if_splits)
  then show ?thesis using l sb by (auto simp: nth_append)
qed

lemma fanOut_store:
  "fanOut m chs acts st 0 [] = (st', f, att) \<Longrightarrow>
   cap (st' c) = cap (st c) \<and>
   delivered (st' c) @ buf (st' c)
     = delivered (st c) @ buf (st c) @ replicate (length (filter (\<lambda>a. a = (c, True)) att)) m"
proof (induction chs arbitrary: acts st st' f att)
  case Nil
  then show ?case by simp
next
  case (Cons ch chs)
  let ?st1 = "fold subscriberStep (nextActs acts) st"
  show ?case
  proof (cases "sendReady ?st1 ch")
    case False
    with Cons.prems obtain att2 f2 where
      r: "fanOut m chs (drop 1 acts) ?st1 0 [] = (st', f2, att2)" and a: "att = (ch, False) # att2"
      by (auto simp: fanOut_Cons split: prod.splits)
    from Cons.IH [OF r] a show ?thesis
      by (simp add: subscribers_cap subscribers_history)
  next
    case True
    with Cons.prems obtain att2 f2 where
      r: "fanOut m chs (drop 1 acts) (deliver m ch ?st1) 0 [] = (st', f2, att2)"
      and a: "att = (ch, True) # att2"
      by (auto simp: fanOut_Cons split: prod.splits)
    from Cons.IH [OF r] a show ?thesis
      by (auto simp: deliver_cap deliver_history subscribers_cap subscribers_history
          replicate_app_Cons_same)
  qed
qed

lemma fanOut_attempts_map:
  assumes "fanOut m chs acts st 0 [] = (st', f, att)"
  shows "att = map (\<lambda>i. (chs ! i, sendReady (storeAtSend m chs acts st i) (chs ! i)))
                 [0..<length chs]"
proof (rule nth_equalityI)
  from fanOut_attempts_fst [OF assms] have len: "length att = length chs"
    by (metis length_map)
  then show "length att
               = length (map (\<lambda>i. (chs ! i, sendReady (storeAtSend m chs acts st i) (chs ! i)))
                           [0..<length chs])"
    by simp
  fix i assume "i < length att"
  with len have "i < length chs" by simp
  then show "att ! i = map (\<lambda>i. (chs ! i, sendReady (storeAtSend m chs acts st i) (chs ! i)))
                          [0..<length chs] ! i"
    by (simp add: fanOut_attempt_at [OF assms])
qed

lemma fanOut_tally_at_send_time:
  assumes "fanOut m chs acts st 0 [] = (st', f, att)"
  shows "f = length (filter (\<lambda>i. \<not> sendReady (storeAtSend m chs acts st i) (chs ! i))
                       [0..<length chs])"
proof -
  have "f = length (filter (\<lambda>a. \<not> snd a) att)" by (rule fanOut_tally [OF assms])
  also have "\<dots> = length (filter (\<lambda>a. \<not> snd a)
                      (map (\<lambda>i. (chs ! i, sendReady (storeAtSend m chs acts st i) (chs ! i)))
                           [0..<length chs]))"
    using fanOut_attempts_map [OF assms] by simp
  also have "\<dots> = length (filter (\<lambda>i. \<not> sendReady (storeAtSend m chs acts st i) (chs ! i))
                      [0..<length chs])"
    by (simp add: filter_map comp_def)
  finally show ?thesis .
qed

lemma storeAtSend_cap:
  "cap (storeAtSend m chs acts st i c) = cap (st c)"
proof -
  obtain st1 f1 att1 where p: "fanOut m (take i chs) acts st 0 [] = (st1, f1, att1)"
    by (metis prod_cases3)
  from fanOut_store [OF p, of c] show ?thesis
    by (simp add: storeAtSend_def p subscribers_cap)
qed

lemma storeAtSend_buffered:
  assumes "\<forall>c \<in> set chs. 1 \<le> cap (st c)" "i < length chs"
  shows "sendReady (storeAtSend m chs acts st i) (chs ! i)
           \<longleftrightarrow> \<not> bufferFull (storeAtSend m chs acts st i) (chs ! i)"
proof -
  from assms have "1 \<le> cap (st (chs ! i))" by simp
  then have "1 \<le> cap (storeAtSend m chs acts st i (chs ! i))" by (simp add: storeAtSend_cap)
  then show ?thesis by (rule sendReady_buffered)
qed

lemma fanOut_buffered_tally:
  assumes "fanOut m chs acts st 0 [] = (st', f, att)" "\<forall>c \<in> set chs. 1 \<le> cap (st c)"
  shows "f = length (filter (\<lambda>i. bufferFull (storeAtSend m chs acts st i) (chs ! i))
                       [0..<length chs])"
proof -
  have "filter (\<lambda>i. \<not> sendReady (storeAtSend m chs acts st i) (chs ! i)) [0..<length chs]
          = filter (\<lambda>i. bufferFull (storeAtSend m chs acts st i) (chs ! i)) [0..<length chs]"
    by (rule filter_cong) (auto simp: storeAtSend_buffered [OF assms(2)])
  with fanOut_tally_at_send_time [OF assms(1)] show ?thesis by simp
qed

lemma quiet_acts:
  "concat acts = [] \<Longrightarrow> nextActs acts = [] \<and> concat (drop 1 acts) = []"
  by (cases acts) (auto simp: nextActs_def)

lemma fanOut_distinct_tally:
  "fanOut m chs acts st 0 [] = (st', f, att) \<Longrightarrow> distinct chs \<Longrightarrow> concat acts = [] \<Longrightarrow>
   f = length (filter (\<lambda>c. \<not> sendReady st c) chs)"
proof (induction chs arbitrary: acts st st' f att)
  case Nil
  then show ?case by simp
next
  case (Cons ch chs)
  from quiet_acts [OF Cons.prems(3)]
  have q: "nextActs acts = []" and q': "concat (drop 1 acts) = []" by simp_all
  show ?case
  proof (cases "sendReady st ch")
    case False
    with Cons.prems q Cons.IH [of "drop 1 acts" st, OF _ _ q'] show ?thesis
      by (auto simp: fanOut_Cons split: prod.splits)
  next
    case True
    have same: "filter (\<lambda>c. \<not> sendReady (deliver m ch st) c) chs
                  = filter (\<lambda>c. \<not> sendReady st c) chs"
    proof (rule filter_cong [OF refl])
      fix c assume "c \<in> set chs"
      with Cons.prems(2) have "c \<noteq> ch" by auto
      then show "(\<not> sendReady (deliver m ch st) c) = (\<not> sendReady st c)"
        by (simp add: sendReady_def deliver_other)
    qed
    with True Cons.prems q Cons.IH [of "drop 1 acts" "deliver m ch st", OF _ _ q']
    show ?thesis
      by (auto simp: fanOut_Cons split: prod.splits)
  qed
qed

lemma sendReady_chanFull: "sendReady st ch \<longleftrightarrow> \<not> chanFull st ch"
  by (auto simp: sendReady_def chanFull_def bufferFull_def)

lemma chanFull_buffered: "1 \<le> cap (st ch) \<Longrightarrow> chanFull st ch \<longleftrightarrow> bufferFull st ch"
  by (auto simp: chanFull_def bufferFull_def)

lemma chanFull_unbuffered:
  "cap (st ch) = 0 \<Longrightarrow> chanFull st ch \<longleftrightarrow> \<not> (0 < parked (st ch) \<and> buf (st ch) = [])"
  by (simp add: chanFull_def bufferFull_def)

lemma fanOut_quiet_store:
  "fanOut m chs acts st 0 [] = (st', f, att) \<Longrightarrow> distinct chs \<Longrightarrow> concat acts = [] \<Longrightarrow>
   st' c = (if c \<in> set chs \<and> sendReady st c then deliver m c st c else st c)"
proof (induction chs arbitrary: acts st st' f att)
  case Nil
  then show ?case by simp
next
  case (Cons ch chs)
  from quiet_acts [OF Cons.prems(3)]
  have q: "nextActs acts = []" and q': "concat (drop 1 acts) = []" by simp_all
  from Cons.prems(2) have fresh: "ch \<notin> set chs" and d: "distinct chs" by simp_all
  show ?case
  proof (cases "sendReady st ch")
    case False
    with Cons.prems(1) q obtain f2 att2 where
      r: "fanOut m chs (drop 1 acts) st 0 [] = (st', f2, att2)"
      by (auto simp: fanOut_Cons split: prod.splits)
    from Cons.IH [OF r d q'] False fresh show ?thesis by auto
  next
    case True
    with Cons.prems(1) q obtain f2 att2 where
      r: "fanOut m chs (drop 1 acts) (deliver m ch st) 0 [] = (st', f2, att2)"
      by (auto simp: fanOut_Cons split: prod.splits)
    note ih = Cons.IH [OF r d q']
    show ?thesis
    proof (cases "c = ch")
      case True
      with ih fresh \<open>sendReady st ch\<close> show ?thesis by simp
    next
      case False
      then have same: "deliver m ch st c = st c" by (simp add: deliver_other)
      then have "sendReady (deliver m ch st) c = sendReady st c"
        and "deliver m c (deliver m ch st) c = deliver m c st c"
        by (simp_all add: sendReady_def deliver_def)
      with ih same False show ?thesis by simp
    qed
  qed
qed

subsection \<open>Discovery: the rounds\<close>

lemma rounds_round:
  assumes "commonDiscoveryLoop (listed r) = (res, None)"
    and "fanOut \<lparr>Origin = Discovery, msg_DiscoveryResult = res\<rparr> chs (beside r) st 0 []
           = (st', f, att)"
  shows "discoveryRounds chs (r # rs) st reps lg =
           (case woke r of
              CtxCancelled \<Rightarrow>
                \<lparr>d_store = st', d_exit = Cancelled,
                 d_rounds = reps @ [\<lparr>rr_message = \<lparr>Origin = Discovery, msg_DiscoveryResult = res\<rparr>,
                                     rr_attempts = att, rr_fullChs = f\<rparr>],
                 d_log = roundLog lg res f @ [LogInfo ''CommonDiscovery cancellation requested'']\<rparr>
            | TickerFired \<Rightarrow>
                discoveryRounds chs rs (fold subscriberStep (afterwards r) st')
                  (reps @ [\<lparr>rr_message = \<lparr>Origin = Discovery, msg_DiscoveryResult = res\<rparr>,
                            rr_attempts = att, rr_fullChs = f\<rparr>])
                  (roundLog lg res f @ [LogDebug ''CommonDiscovery ticker fired'']))"
  using assms by (simp add: Let_def)

lemma rounds_zero_processes:
  "listed r = ([], None) \<Longrightarrow>
   discoveryRounds chs (r # rs) st reps lg =
     \<lparr>d_store = st, d_exit = ListingFailed (Error ''no processes found''), d_rounds = reps,
      d_log = lg @ [LogError ''Failed to perform common discovery'']\<rparr>"
  by (simp add: commonDiscoveryLoop_def)

declare discoveryRounds.simps(2) [simp del]

lemma commonDiscoveryLoop_success:
  "commonDiscoveryLoop l = (res, None) \<Longrightarrow> snd l = None \<and> fst l \<noteq> [] \<and> res = \<lparr>Processes = fst l\<rparr>"
  by (cases l) (auto simp: commonDiscoveryLoop_def split: option.splits if_splits)

lemma commonDiscoveryLoop_zero:
  "commonDiscoveryLoop ([], None) = (\<lparr>Processes = []\<rparr>, Some (Error ''no processes found''))"
  by (simp add: commonDiscoveryLoop_def)

lemma rounds_skip_prefix:
  "\<forall>r' \<in> set pre. reachesNextRound r' \<Longrightarrow>
   \<exists>st' reps' lg'. length reps' = length reps + length pre \<and>
     (\<forall>rest. discoveryRounds chs (pre @ rest) st reps lg = discoveryRounds chs rest st' reps' lg')"
proof (induction pre arbitrary: st reps lg)
  case Nil
  then show ?case by auto
next
  case (Cons r pre)
  from Cons.prems have rr: "reachesNextRound r" and rest: "\<forall>r' \<in> set pre. reachesNextRound r'"
    by simp_all
  from rr obtain res where ok: "commonDiscoveryLoop (listed r) = (res, None)"
    and t: "woke r = TickerFired"
    by (auto simp: reachesNextRound_def) (metis prod.collapse)
  obtain st1 f att where
    fo: "fanOut \<lparr>Origin = Discovery, msg_DiscoveryResult = res\<rparr> chs (beside r) st 0 []
           = (st1, f, att)"
    by (metis prod_cases3)
  let ?rep = "\<lparr>rr_message = \<lparr>Origin = Discovery, msg_DiscoveryResult = res\<rparr>,
               rr_attempts = att, rr_fullChs = f\<rparr>"
  let ?lg = "roundLog lg res f @ [LogDebug ''CommonDiscovery ticker fired'']"
  have step: "discoveryRounds chs (r # rs) st reps lg
          = discoveryRounds chs rs (fold subscriberStep (afterwards r) st1) (reps @ [?rep]) ?lg"
    for rs
    using rounds_round [OF ok fo, of rs reps lg] t by simp
  from Cons.IH [OF rest, of "reps @ [?rep]" "fold subscriberStep (afterwards r) st1" ?lg]
  obtain st' reps' lg' where
    l: "length reps' = length (reps @ [?rep]) + length pre"
    and e: "\<forall>rest. discoveryRounds chs (pre @ rest) (fold subscriberStep (afterwards r) st1)
                     (reps @ [?rep]) ?lg
                 = discoveryRounds chs rest st' reps' lg'"
    by blast
  from l have "length reps' = length reps + length (r # pre)" by simp
  moreover from e step
  have "\<forall>rest. discoveryRounds chs ((r # pre) @ rest) st reps lg
                 = discoveryRounds chs rest st' reps' lg'"
    by simp
  ultimately show ?case by blast
qed

text \<open>
  C3: when the process listing of a round returns zero processes (and no error),
  \<^verbatim>\<open>commonDiscoveryLoop\<close> returns the error \<^verbatim>\<open>no processes found\<close> with an empty
  result, and \<^verbatim>\<open>CommonDiscovery\<close>, having reached that round through rounds that
  succeeded and were woken by the ticker, exits with that error: the rounds it reports
  are the earlier ones only (nothing is sent in the failing round), and whatever the
  later rounds would have met makes no difference, because they are never run.
\<close>

theorem C3_zero_processes_terminates:
  assumes zero: "listed r = ([], None)"
    and reach: "\<forall>r' \<in> set pre. reachesNextRound r'"
    and freq: "0 < frequencyOf cfg"
  shows "commonDiscoveryLoop (listed r)
           = (\<lparr>Processes = []\<rparr>, Some (Error ''no processes found'')) \<and>
         d_exit (CommonDiscovery cfg (Channels chs) (pre @ r # rs) st)
           = ListingFailed (Error ''no processes found'') \<and>
         length (d_rounds (CommonDiscovery cfg (Channels chs) (pre @ r # rs) st)) = length pre \<and>
         CommonDiscovery cfg (Channels chs) (pre @ r # rs) st
           = CommonDiscovery cfg (Channels chs) (pre @ [r]) st"
proof -
  let ?lg = "[LogInfo ''CommonDiscovery started'']"
  from rounds_skip_prefix [OF reach, of "[]" chs st ?lg]
  obtain st' reps' lg' where l: "length reps' = length pre"
    and e: "\<And>rest. discoveryRounds chs (pre @ rest) st [] ?lg
                    = discoveryRounds chs rest st' reps' lg'"
    by auto
  have run: "CommonDiscovery cfg (Channels chs) env st = discoveryRounds chs env st [] ?lg" for env
    using freq by (simp add: CommonDiscovery_def)
  have "CommonDiscovery cfg (Channels chs) (pre @ r # rest) st
          = \<lparr>d_store = st', d_exit = ListingFailed (Error ''no processes found''),
             d_rounds = reps', d_log = lg' @ [LogError ''Failed to perform common discovery'']\<rparr>"
    for rest
  proof -
    have "CommonDiscovery cfg (Channels chs) (pre @ r # rest) st
            = discoveryRounds chs (r # rest) st' reps' lg'"
      by (simp only: run e)
    then show ?thesis by (simp only: rounds_zero_processes [OF zero])
  qed
  from this [of rs] this [of "[]"] l zero show ?thesis
    by (simp add: commonDiscoveryLoop_zero)
qed

text \<open>
  The witness: the default period, three subscribers, a first round that finds
  \<^verbatim>\<open>bash\<close>, a second round that finds nothing, and a third that would find \<^verbatim>\<open>bash\<close>
  again.
\<close>

theorem C3_zero_processes_terminates_witness:
  "listed (example_round [] TickerFired) = ([], None) \<and>
   reachesNextRound (example_round [''bash''] TickerFired) \<and>
   0 < frequencyOf (Config (example_service None)) \<and>
   d_exit (CommonDiscovery (Config (example_service None)) (Channels [0, 1, 2])
             ([example_round [''bash''] TickerFired] @ example_round [] TickerFired
                # [example_round [''bash''] TickerFired])
             example_store)
     = ListingFailed (Error ''no processes found'') \<and>
   length (d_rounds (CommonDiscovery (Config (example_service None)) (Channels [0, 1, 2])
             ([example_round [''bash''] TickerFired] @ example_round [] TickerFired
                # [example_round [''bash''] TickerFired])
             example_store))
     = 1"
proof -
  have zero: "listed (example_round [] TickerFired) = ([], None)"
    by (simp add: example_round_def)
  have r1: "reachesNextRound (example_round [''bash''] TickerFired)"
    by (simp add: reachesNextRound_def commonDiscoveryLoop_def example_round_def)
  then have reach: "\<forall>r' \<in> set [example_round [''bash''] TickerFired]. reachesNextRound r'"
    by simp
  have freq: "0 < frequencyOf (Config (example_service None))"
    by (simp add: frequencyOf_def example_service_def)
  note t = C3_zero_processes_terminates [OF zero reach freq, of "[0, 1, 2]"
              "[example_round [''bash''] TickerFired]" example_store]
  from t have e: "d_exit (CommonDiscovery (Config (example_service None)) (Channels [0, 1, 2])
             ([example_round [''bash''] TickerFired] @ example_round [] TickerFired
                # [example_round [''bash''] TickerFired])
             example_store)
     = ListingFailed (Error ''no processes found'')"
    by blast
  from t have l: "length (d_rounds (CommonDiscovery (Config (example_service None))
             (Channels [0, 1, 2])
             ([example_round [''bash''] TickerFired] @ example_round [] TickerFired
                # [example_round [''bash''] TickerFired])
             example_store))
     = length [example_round [''bash''] TickerFired]"
    by blast
  from zero r1 freq e l show ?thesis by simp
qed

text \<open>The channels of the example store.\<close>

lemma example_store_simps:
  "example_store 0 = \<lparr>cap = 1, buf = [], parked = 0, delivered = []\<rparr>"
  "example_store (Suc 0) = \<lparr>cap = 1, buf = [example_message DWActivation []], parked = 0,
                             delivered = []\<rparr>"
  "example_store 2 = \<lparr>cap = 2, buf = [], parked = 0, delivered = []\<rparr>"
  "example_store 3 = \<lparr>cap = 0, buf = [], parked = 1, delivered = []\<rparr>"
  "example_store 4 = \<lparr>cap = 0, buf = [], parked = 0, delivered = []\<rparr>"
  by (simp_all add: example_store_def)

text \<open>
  C8: in a round whose listing succeeds, the message built has origin Discovery and
  carries the listed processes.  The loop of \<^verbatim>\<open>CommonDiscovery\<close> goes on from the round
  with the store the sends leave behind: on cancellation that is the store the run ends
  with, on a tick the next round starts from it, after what the subscribers did meanwhile;
  the log lines of the round carry the number of processes and the tally.  The send loop
  makes exactly one attempt per entry of the subscriber slice, in order, and blocks on
  none: the attempt on an entry goes through exactly when the channel is not full at the
  time of that send, and is skipped otherwise; \<open>fullChs\<close> is the number of entries whose
  channel was full at the time of their send.  Every channel keeps its capacity, and the
  messages it has carried (those its receivers took, then those in its buffer) grow by
  one copy of the message per attempt on it that went through, and by nothing else.  For
  a channel that has a buffer, being full is that the buffer is full.  When no channel
  stands twice in the slice and the subscribers do nothing during the sends, \<open>fullChs\<close>
  is the number of subscriber channels that were full when the round began to send, and
  the store changes by one delivery on each subscriber channel that was not full.
\<close>

theorem C8_fan_out_round:
  assumes ok: "commonDiscoveryLoop (listed r) = (res, None)"
    and sent: "fanOut \<lparr>Origin = Discovery, msg_DiscoveryResult = res\<rparr> chs (beside r) st 0 []
                 = (st', fullChs, attempts)"
  shows "res = \<lparr>Processes = fst (listed r)\<rparr> \<and>
         discoveryRounds chs (r # rs) st reps lg =
           (case woke r of
              CtxCancelled \<Rightarrow>
                \<lparr>d_store = st', d_exit = Cancelled,
                 d_rounds = reps @ [\<lparr>rr_message = \<lparr>Origin = Discovery, msg_DiscoveryResult = res\<rparr>,
                                     rr_attempts = attempts, rr_fullChs = fullChs\<rparr>],
                 d_log = roundLog lg res fullChs
                           @ [LogInfo ''CommonDiscovery cancellation requested'']\<rparr>
            | TickerFired \<Rightarrow>
                discoveryRounds chs rs (fold subscriberStep (afterwards r) st')
                  (reps @ [\<lparr>rr_message = \<lparr>Origin = Discovery, msg_DiscoveryResult = res\<rparr>,
                            rr_attempts = attempts, rr_fullChs = fullChs\<rparr>])
                  (roundLog lg res fullChs @ [LogDebug ''CommonDiscovery ticker fired''])) \<and>
         (0 < frequencyOf cfg \<longrightarrow>
            CommonDiscovery cfg (Channels chs) (r # rs) st
              = discoveryRounds chs (r # rs) st [] [LogInfo ''CommonDiscovery started'']) \<and>
         map fst attempts = chs \<and>
         (\<forall>i < length chs.
            snd (attempts ! i) \<longleftrightarrow>
              \<not> chanFull (storeAtSend \<lparr>Origin = Discovery, msg_DiscoveryResult = res\<rparr>
                            chs (beside r) st i) (chs ! i)) \<and>
         fullChs = length (filter
                     (\<lambda>i. chanFull (storeAtSend \<lparr>Origin = Discovery, msg_DiscoveryResult = res\<rparr>
                                      chs (beside r) st i) (chs ! i))
                     [0..<length chs]) \<and>
         (\<forall>c. cap (st' c) = cap (st c) \<and>
              delivered (st' c) @ buf (st' c)
                = delivered (st c) @ buf (st c)
                  @ replicate (length (filter (\<lambda>a. a = (c, True)) attempts))
                      \<lparr>Origin = Discovery, msg_DiscoveryResult = res\<rparr>) \<and>
         (\<forall>i < length chs.
            1 \<le> cap (st (chs ! i)) \<longrightarrow>
              (snd (attempts ! i) \<longleftrightarrow>
                 \<not> bufferFull (storeAtSend \<lparr>Origin = Discovery, msg_DiscoveryResult = res\<rparr>
                                 chs (beside r) st i) (chs ! i))) \<and>
         ((\<forall>c \<in> set chs. 1 \<le> cap (st c)) \<longrightarrow>
            fullChs = length (filter
                        (\<lambda>i. bufferFull (storeAtSend \<lparr>Origin = Discovery, msg_DiscoveryResult = res\<rparr>
                                          chs (beside r) st i) (chs ! i))
                        [0..<length chs])) \<and>
         (distinct chs \<and> concat (beside r) = [] \<longrightarrow>
            fullChs = length (filter (chanFull st) chs) \<and>
            (\<forall>c. st' c = (if c \<in> set chs \<and> \<not> chanFull st c
                          then deliver \<lparr>Origin = Discovery, msg_DiscoveryResult = res\<rparr> c st c
                          else st c)))"
proof -
  let ?msg = "\<lparr>Origin = Discovery, msg_DiscoveryResult = res\<rparr>"
  let ?at = "storeAtSend ?msg chs (beside r) st"
  have c1: "res = \<lparr>Processes = fst (listed r)\<rparr>"
    using commonDiscoveryLoop_success [OF ok] by simp
  have c2: "discoveryRounds chs (r # rs) st reps lg =
           (case woke r of
              CtxCancelled \<Rightarrow>
                \<lparr>d_store = st', d_exit = Cancelled,
                 d_rounds = reps @ [\<lparr>rr_message = ?msg,
                                     rr_attempts = attempts, rr_fullChs = fullChs\<rparr>],
                 d_log = roundLog lg res fullChs
                           @ [LogInfo ''CommonDiscovery cancellation requested'']\<rparr>
            | TickerFired \<Rightarrow>
                discoveryRounds chs rs (fold subscriberStep (afterwards r) st')
                  (reps @ [\<lparr>rr_message = ?msg,
                            rr_attempts = attempts, rr_fullChs = fullChs\<rparr>])
                  (roundLog lg res fullChs @ [LogDebug ''CommonDiscovery ticker fired'']))"
    by (rule rounds_round [OF ok sent])
  have c3: "0 < frequencyOf cfg \<longrightarrow>
            CommonDiscovery cfg (Channels chs) (r # rs) st
              = discoveryRounds chs (r # rs) st [] [LogInfo ''CommonDiscovery started'']"
    by (simp add: CommonDiscovery_def)
  have c4: "map fst attempts = chs" by (rule fanOut_attempts_fst [OF sent])
  have at: "snd (attempts ! i) \<longleftrightarrow> \<not> chanFull (?at i) (chs ! i)" if "i < length chs" for i
    using that by (simp add: fanOut_attempt_at [OF sent] sendReady_chanFull)
  then have c5: "\<forall>i < length chs. snd (attempts ! i) \<longleftrightarrow> \<not> chanFull (?at i) (chs ! i)"
    by blast
  have c6: "fullChs = length (filter (\<lambda>i. chanFull (?at i) (chs ! i)) [0..<length chs])"
    using fanOut_tally_at_send_time [OF sent] by (simp add: sendReady_chanFull)
  have c7: "\<forall>c. cap (st' c) = cap (st c) \<and>
              delivered (st' c) @ buf (st' c)
                = delivered (st c) @ buf (st c)
                  @ replicate (length (filter (\<lambda>a. a = (c, True)) attempts)) ?msg"
    using fanOut_store [OF sent] by blast
  have c8: "\<forall>i < length chs.
            1 \<le> cap (st (chs ! i)) \<longrightarrow>
              (snd (attempts ! i) \<longleftrightarrow> \<not> bufferFull (?at i) (chs ! i))"
  proof (intro allI impI)
    fix i assume i: "i < length chs" and b: "1 \<le> cap (st (chs ! i))"
    from b have "1 \<le> cap (?at i (chs ! i))" by (simp add: storeAtSend_cap)
    then have "chanFull (?at i) (chs ! i) \<longleftrightarrow> bufferFull (?at i) (chs ! i)"
      by (rule chanFull_buffered)
    with at [OF i] show "snd (attempts ! i) \<longleftrightarrow> \<not> bufferFull (?at i) (chs ! i)" by simp
  qed
  have c9: "(\<forall>c \<in> set chs. 1 \<le> cap (st c)) \<longrightarrow>
            fullChs = length (filter (\<lambda>i. bufferFull (?at i) (chs ! i)) [0..<length chs])"
    using fanOut_buffered_tally [OF sent] by blast
  have c10: "distinct chs \<and> concat (beside r) = [] \<longrightarrow>
            fullChs = length (filter (chanFull st) chs) \<and>
            (\<forall>c. st' c = (if c \<in> set chs \<and> \<not> chanFull st c then deliver ?msg c st c
                          else st c))"
  proof (intro impI conjI allI)
    assume q: "distinct chs \<and> concat (beside r) = []"
    have "filter (\<lambda>c. \<not> sendReady st c) chs = filter (chanFull st) chs"
      by (simp add: sendReady_chanFull)
    with fanOut_distinct_tally [OF sent] q
    show "fullChs = length (filter (chanFull st) chs)" by simp
    fix c
    from fanOut_quiet_store [OF sent, of c] q
    show "st' c = (if c \<in> set chs \<and> \<not> chanFull st c then deliver ?msg c st c else st c)"
      by (simp add: sendReady_chanFull)
  qed
  from c1 c2 c3 c4 c5 c6 c7 c8 c9 c10 show ?thesis by (intro conjI)
qed

text \<open>
  The witness has two rounds.  In the first, with the default period, the slice holds
  channel 0 twice and a nil channel: channel 1 is full and skipped, the receiver parked
  on the unbuffered channel 3 takes the message directly, channel 0 takes a second
  message because a subscriber took the first in between, and the nil channel is
  skipped; the ticker fires and the run stands before its next round with these
  deliveries in the store.  In the second no subscriber moves, the three channels differ
  and all have a buffer: the one full channel is skipped and the run, cancelled, ends with
  the store the sends left.
\<close>

theorem C8_fan_out_round_witness:
  "commonDiscoveryLoop (listed (example_busy_round [''bash'', ''ora_pmon_ORCL''] TickerFired))
     = (\<lparr>Processes = map example_process [''bash'', ''ora_pmon_ORCL'']\<rparr>, None) \<and>
   snd (fanOut (example_message Discovery [''bash'', ''ora_pmon_ORCL'']) [0, 1, 2, 3, 0, 4]
          (beside (example_busy_round [''bash'', ''ora_pmon_ORCL''] TickerFired))
          example_store 0 [])
     = (2, [(0, True), (1, False), (2, True), (3, True), (0, True), (4, False)]) \<and>
   0 < frequencyOf (Config (example_service None)) \<and>
   d_exit (CommonDiscovery (Config (example_service None)) (Channels [0, 1, 2, 3, 0, 4])
             [example_busy_round [''bash'', ''ora_pmon_ORCL''] TickerFired] example_store)
     = AwaitingRound \<and>
   d_rounds (CommonDiscovery (Config (example_service None)) (Channels [0, 1, 2, 3, 0, 4])
               [example_busy_round [''bash'', ''ora_pmon_ORCL''] TickerFired] example_store)
     = [\<lparr>rr_message = example_message Discovery [''bash'', ''ora_pmon_ORCL''],
         rr_attempts = [(0, True), (1, False), (2, True), (3, True), (0, True), (4, False)],
         rr_fullChs = 2\<rparr>] \<and>
   d_log (CommonDiscovery (Config (example_service None)) (Channels [0, 1, 2, 3, 0, 4])
            [example_busy_round [''bash'', ''ora_pmon_ORCL''] TickerFired] example_store)
     = [LogInfo ''CommonDiscovery started'',
        LogInfo ''CommonDiscovery found 2 processes.'',
        LogInfo ''CommonDiscovery found 2 full channels that it was unable to write to.'',
        LogDebug ''CommonDiscovery ticker fired''] \<and>
   d_store (CommonDiscovery (Config (example_service None)) (Channels [0, 1, 2, 3, 0, 4])
              [example_busy_round [''bash'', ''ora_pmon_ORCL''] TickerFired] example_store) 0
     = \<lparr>cap = 1, buf = [example_message Discovery [''bash'', ''ora_pmon_ORCL'']], parked = 0,
        delivered = [example_message Discovery [''bash'', ''ora_pmon_ORCL'']]\<rparr> \<and>
   d_store (CommonDiscovery (Config (example_service None)) (Channels [0, 1, 2, 3, 0, 4])
              [example_busy_round [''bash'', ''ora_pmon_ORCL''] TickerFired] example_store) 1
     = \<lparr>cap = 1, buf = [], parked = 0, delivered = [example_message DWActivation []]\<rparr> \<and>
   d_store (CommonDiscovery (Config (example_service None)) (Channels [0, 1, 2, 3, 0, 4])
              [example_busy_round [''bash'', ''ora_pmon_ORCL''] TickerFired] example_store) 3
     = \<lparr>cap = 0, buf = [], parked = 0,
        delivered = [example_message Discovery [''bash'', ''ora_pmon_ORCL'']]\<rparr> \<and>
   d_store (CommonDiscovery (Config (example_service None)) (Channels [0, 1, 2, 3, 0, 4])
              [example_busy_round [''bash'', ''ora_pmon_ORCL''] TickerFired] example_store) 4
     = \<lparr>cap = 0, buf = [], parked = 0, delivered = []\<rparr> \<and>
   commonDiscoveryLoop (listed (example_round [''bash''] CtxCancelled))
     = (\<lparr>Processes = map example_process [''bash'']\<rparr>, None) \<and>
   snd (fanOut (example_message Discovery [''bash'']) [0, 1, 2]
          (beside (example_round [''bash''] CtxCancelled)) example_store 0 [])
     = (1, [(0, True), (1, False), (2, True)]) \<and>
   list_all (\<lambda>c. 1 \<le> cap (example_store c)) [0, 1, 2] \<and>
   distinct [0 :: nat, 1, 2] \<and>
   concat (beside (example_round [''bash''] CtxCancelled)) = [] \<and>
   filter (chanFull example_store) [0, 1, 2] = [1] \<and>
   d_exit (discoveryRounds [0, 1, 2] [example_round [''bash''] CtxCancelled] example_store
             [] [])
     = Cancelled \<and>
   d_store (discoveryRounds [0, 1, 2] [example_round [''bash''] CtxCancelled] example_store
              [] []) 2
     = \<lparr>cap = 2, buf = [example_message Discovery [''bash'']], parked = 0, delivered = []\<rparr> \<and>
   d_store (discoveryRounds [0, 1, 2] [example_round [''bash''] CtxCancelled] example_store
              [] []) 1
     = example_store 1"
proof -
  let ?cfg = "Config (example_service None)"
  let ?r = "example_busy_round [''bash'', ''ora_pmon_ORCL''] TickerFired"
  let ?res = "\<lparr>Processes = map example_process [''bash'', ''ora_pmon_ORCL'']\<rparr>"
  let ?msg = "\<lparr>Origin = Discovery, msg_DiscoveryResult = ?res\<rparr>"
  let ?chs = "[0, 1, 2, 3, 0, 4] :: nat list"
  let ?atts = "[(0, True), (1, False), (2, True), (3, True), (0, True), (4 :: nat, False)]"
  let ?st' = "fst (fanOut ?msg ?chs (beside ?r) example_store 0 [])"
  have m: "example_message Discovery [''bash'', ''ora_pmon_ORCL''] = ?msg"
    by (simp add: example_message_def)
  have ok: "commonDiscoveryLoop (listed ?r) = (?res, None)"
    by (simp add: commonDiscoveryLoop_def example_busy_round_def)
  have bs: "beside ?r = [[], [], [], [], [StartReceive 0]]"
    and af: "afterwards ?r = [StartReceive 1]" and wk: "woke ?r = TickerFired"
    by (simp_all add: example_busy_round_def)
  have out: "snd (fanOut ?msg ?chs (beside ?r) example_store 0 []) = (2, ?atts)"
    by (simp add: bs fanOut.simps nextActs_def sendReady_def deliver_def example_store_simps)
  then have sent: "fanOut ?msg ?chs (beside ?r) example_store 0 [] = (?st', 2, ?atts)"
    by (metis prod.collapse)
  have freq: "0 < frequencyOf ?cfg"
    by (simp add: frequencyOf_def example_service_def)
  note t = C8_fan_out_round [OF ok sent, of "[]" "[]" "[LogInfo ''CommonDiscovery started'']" ?cfg]
  from t have run: "0 < frequencyOf ?cfg \<longrightarrow>
      CommonDiscovery ?cfg (Channels ?chs) [?r] example_store
        = discoveryRounds ?chs [?r] example_store [] [LogInfo ''CommonDiscovery started'']"
    by blast
  from t have rd: "discoveryRounds ?chs [?r] example_store [] [LogInfo ''CommonDiscovery started'']
      = (case woke ?r of
              CtxCancelled \<Rightarrow>
                \<lparr>d_store = ?st', d_exit = Cancelled,
                 d_rounds = [] @ [\<lparr>rr_message = ?msg, rr_attempts = ?atts, rr_fullChs = 2\<rparr>],
                 d_log = roundLog [LogInfo ''CommonDiscovery started''] ?res 2
                           @ [LogInfo ''CommonDiscovery cancellation requested'']\<rparr>
            | TickerFired \<Rightarrow>
                discoveryRounds ?chs [] (fold subscriberStep (afterwards ?r) ?st')
                  ([] @ [\<lparr>rr_message = ?msg, rr_attempts = ?atts, rr_fullChs = 2\<rparr>])
                  (roundLog [LogInfo ''CommonDiscovery started''] ?res 2
                     @ [LogDebug ''CommonDiscovery ticker fired'']))"
    by blast
  have st0: "?st' 0 = \<lparr>cap = 1, buf = [?msg], parked = 0, delivered = [?msg]\<rparr>"
    and st1: "?st' 1 = \<lparr>cap = 1, buf = [example_message DWActivation []], parked = 0,
                         delivered = []\<rparr>"
    and st3: "?st' 3 = \<lparr>cap = 0, buf = [], parked = 0, delivered = [?msg]\<rparr>"
    and st4: "?st' 4 = \<lparr>cap = 0, buf = [], parked = 0, delivered = []\<rparr>"
    by (simp_all add: bs fanOut.simps nextActs_def sendReady_def deliver_def example_store_simps)
  have whole: "CommonDiscovery ?cfg (Channels ?chs) [?r] example_store
      = \<lparr>d_store = fold subscriberStep [StartReceive 1] ?st', d_exit = AwaitingRound,
         d_rounds = [\<lparr>rr_message = ?msg, rr_attempts = ?atts, rr_fullChs = 2\<rparr>],
         d_log = roundLog [LogInfo ''CommonDiscovery started''] ?res 2
                     @ [LogDebug ''CommonDiscovery ticker fired'']\<rparr>"
    using run rd freq by (simp add: wk af)
  have lg: "roundLog [LogInfo ''CommonDiscovery started''] ?res 2
              = [LogInfo ''CommonDiscovery started'',
                 LogInfo ''CommonDiscovery found 2 processes.'',
                 LogInfo ''CommonDiscovery found 2 full channels that it was unable to write to.'']"
    by (simp add: roundLog_def Itoa_def decimal.simps digit_char_def) code_simp
  let ?q = "example_round [''bash''] CtxCancelled"
  let ?res2 = "\<lparr>Processes = map example_process [''bash'']\<rparr>"
  let ?msg2 = "\<lparr>Origin = Discovery, msg_DiscoveryResult = ?res2\<rparr>"
  let ?st2 = "fst (fanOut ?msg2 [0, 1, 2] (beside ?q) example_store 0 [])"
  have m2: "example_message Discovery [''bash''] = ?msg2"
    by (simp add: example_message_def)
  have ok2: "commonDiscoveryLoop (listed ?q) = (?res2, None)"
    by (simp add: commonDiscoveryLoop_def example_round_def)
  have bq: "beside ?q = []" and wq: "woke ?q = CtxCancelled"
    by (simp_all add: example_round_def)
  have out2: "snd (fanOut ?msg2 [0, 1, 2] (beside ?q) example_store 0 [])
                = (1, [(0, True), (1, False), (2, True)])"
    by (simp add: bq fanOut.simps nextActs_def sendReady_def deliver_def example_store_simps)
  then have sent2: "fanOut ?msg2 [0, 1, 2] (beside ?q) example_store 0 []
                      = (?st2, 1, [(0, True), (1, False), (2, True)])"
    by (metis prod.collapse)
  note u = C8_fan_out_round [OF ok2 sent2, of "[]" "[]" "[]" ?cfg]
  have buffered: "\<forall>c \<in> set [0, 1, 2]. 1 \<le> cap (example_store c)"
    by (simp add: example_store_simps)
  have quiet: "distinct [0 :: nat, 1, 2] \<and> concat (beside ?q) = []"
    by (simp add: bq)
  from u quiet have tally: "(1 :: nat) = length (filter (chanFull example_store) [0, 1, 2])"
    and store: "\<forall>c. ?st2 c = (if c \<in> set [0, 1, 2] \<and> \<not> chanFull example_store c
                               then deliver ?msg2 c example_store c else example_store c)"
    by blast+
  from u have rd2: "discoveryRounds [0, 1, 2] [?q] example_store [] []
      = (case woke ?q of
              CtxCancelled \<Rightarrow>
                \<lparr>d_store = ?st2, d_exit = Cancelled,
                 d_rounds = [] @ [\<lparr>rr_message = ?msg2,
                                   rr_attempts = [(0, True), (1, False), (2, True)],
                                   rr_fullChs = 1\<rparr>],
                 d_log = roundLog [] ?res2 1
                           @ [LogInfo ''CommonDiscovery cancellation requested'']\<rparr>
            | TickerFired \<Rightarrow>
                discoveryRounds [0, 1, 2] [] (fold subscriberStep (afterwards ?q) ?st2)
                  ([] @ [\<lparr>rr_message = ?msg2,
                           rr_attempts = [(0, True), (1, False), (2, True)],
                           rr_fullChs = 1\<rparr>])
                  (roundLog [] ?res2 1 @ [LogDebug ''CommonDiscovery ticker fired'']))"
    by blast
  have full: "filter (chanFull example_store) [0, 1, 2] = [1]"
    by (simp add: chanFull_def bufferFull_def example_store_simps)
  have e2: "d_exit (discoveryRounds [0, 1, 2] [?q] example_store [] []) = Cancelled"
    and s2: "d_store (discoveryRounds [0, 1, 2] [?q] example_store [] []) = ?st2"
    using rd2 by (simp_all add: wq)
  have s22: "?st2 2 = \<lparr>cap = 2, buf = [?msg2], parked = 0, delivered = []\<rparr>"
    and s21: "?st2 1 = example_store 1"
    using store
    by (simp_all add: chanFull_def bufferFull_def deliver_def example_store_simps)
  have a: "commonDiscoveryLoop (listed ?r) = (?res, None) \<and>
           snd (fanOut ?msg ?chs (beside ?r) example_store 0 []) = (2, ?atts) \<and>
           0 < frequencyOf ?cfg"
    using ok out freq by simp
  have b: "d_exit (CommonDiscovery ?cfg (Channels ?chs) [?r] example_store) = AwaitingRound \<and>
           d_rounds (CommonDiscovery ?cfg (Channels ?chs) [?r] example_store)
             = [\<lparr>rr_message = ?msg, rr_attempts = ?atts, rr_fullChs = 2\<rparr>] \<and>
           d_log (CommonDiscovery ?cfg (Channels ?chs) [?r] example_store)
             = [LogInfo ''CommonDiscovery started'',
                LogInfo ''CommonDiscovery found 2 processes.'',
                LogInfo ''CommonDiscovery found 2 full channels that it was unable to write to.'',
                LogDebug ''CommonDiscovery ticker fired'']"
    unfolding whole lg by simp
  have c: "d_store (CommonDiscovery ?cfg (Channels ?chs) [?r] example_store) 0
             = \<lparr>cap = 1, buf = [?msg], parked = 0, delivered = [?msg]\<rparr> \<and>
           d_store (CommonDiscovery ?cfg (Channels ?chs) [?r] example_store) 1
             = \<lparr>cap = 1, buf = [], parked = 0, delivered = [example_message DWActivation []]\<rparr> \<and>
           d_store (CommonDiscovery ?cfg (Channels ?chs) [?r] example_store) 3
             = \<lparr>cap = 0, buf = [], parked = 0, delivered = [?msg]\<rparr> \<and>
           d_store (CommonDiscovery ?cfg (Channels ?chs) [?r] example_store) 4
             = \<lparr>cap = 0, buf = [], parked = 0, delivered = []\<rparr>"
    unfolding whole using st0 st1 st3 st4 by simp
  have d: "commonDiscoveryLoop (listed ?q) = (?res2, None) \<and>
           snd (fanOut ?msg2 [0, 1, 2] (beside ?q) example_store 0 [])
             = (1, [(0, True), (1, False), (2, True)]) \<and>
           list_all (\<lambda>c. 1 \<le> cap (example_store c)) [0, 1, 2] \<and>
           distinct [0 :: nat, 1, 2] \<and> concat (beside ?q) = [] \<and>
           filter (chanFull example_store) [0, 1, 2] = [1]"
    using ok2 out2 buffered quiet full by simp
  have e: "d_exit (discoveryRounds [0, 1, 2] [?q] example_store [] []) = Cancelled \<and>
           d_store (discoveryRounds [0, 1, 2] [?q] example_store [] []) 2
             = \<lparr>cap = 2, buf = [?msg2], parked = 0, delivered = []\<rparr> \<and>
           d_store (discoveryRounds [0, 1, 2] [?q] example_store [] []) 1 = example_store 1"
    unfolding e2 s2 using s22 s21 by simp
  from a b c d e show ?thesis unfolding m m2 by (intro conjI) blast+
qed

text \<open>
  The tally counts at the time of each send: a channel with room for one message that
  stands twice in the slice takes the first send and, when no subscriber receives in
  between, is full at the second.
\<close>

lemma fanOut_same_channel_twice:
  "snd (fanOut m [0, 0] [] example_store 0 []) = (1, [(0, True), (0, False)])"
  by (simp add: fanOut.simps nextActs_def sendReady_def deliver_def example_store_simps)

end
